theory Spec2Isabelle
  imports Complex_Main "HOL-Library.Sublist"
begin

section \<open>The JavaScript values the sources compute with\<close>

text \<open>
  The two modules under study, \<^verbatim>\<open>ai-client-utils.js\<close> and \<^verbatim>\<open>parse-prd-direct.js\<close> (both in
  \<^verbatim>\<open>src/unnamed/part_001\<close>), are embedded function by function. What the language runtime supplies (coercions,
  \<^verbatim>\<open>parseInt\<close>, \<^verbatim>\<open>parseFloat\<close>, \<^verbatim>\<open>isNaN\<close>, the POSIX \<^verbatim>\<open>path\<close> module, the synchronous
  \<^verbatim>\<open>fs\<close> calls) is written out first, following ECMA-262 and the Node.js library.

  Numbers that reach \<^verbatim>\<open>numTasks\<close> and \<^verbatim>\<open>maxTokens\<close> are \<^verbatim>\<open>NaN\<close>, an infinity (\<open>Infty True\<close> is
  the negative one) or an integer; what produces a number rounds it to a double, as
  \<open>toDouble\<close> below. Fractions and the sign of zero are outside this type. A string is the
  list of its UTF-16 code units, and a \<open>char\<close> is a code unit below 256; code units from
  256 on are outside the type.
\<close>

datatype jsnum = NaN | Infty bool | Fin int

text \<open>
  The double nearest to a natural number, ties to the even significand: below \<open>2^53\<close>
  every natural number is a double; above, the 53 leading bits are kept and rounded.
\<close>

fun bitLength :: "nat \<Rightarrow> nat" where
  "bitLength n = (if n = 0 then 0 else Suc (bitLength (n div 2)))"

declare bitLength.simps [simp del]

definition roundToDouble :: "nat \<Rightarrow> nat" where
  "roundToDouble n =
    (if n < 2 ^ 53 then n
     else
       let e = bitLength n - 53; q = n div 2 ^ e; r = n mod 2 ^ e; half = 2 ^ (e - 1)
       in (if half < r \<or> (r = half \<and> odd q) then q + 1 else q) * 2 ^ e)"

text \<open>The Number value for an integer; what rounds to \<open>2^1024\<close> or beyond is an infinity.\<close>

definition toDouble :: "int \<Rightarrow> jsnum" where
  "toDouble i =
    (let m = roundToDouble (nat \<bar>i\<bar>)
     in if 2 ^ 1024 \<le> m then Infty (i < 0) else Fin (if i < 0 then - int m else int m))"

datatype jsval = JUndefined | JNull | JBool bool | JNum jsnum | JStr string

definition digitChar :: "nat \<Rightarrow> char" where
  "digitChar d =
    (if d = 0 then CHR ''0'' else if d = 1 then CHR ''1'' else if d = 2 then CHR ''2''
     else if d = 3 then CHR ''3'' else if d = 4 then CHR ''4'' else if d = 5 then CHR ''5''
     else if d = 6 then CHR ''6'' else if d = 7 then CHR ''7'' else if d = 8 then CHR ''8''
     else CHR ''9'')"

fun decimal :: "nat \<Rightarrow> string" where
  "decimal n = (if n < 10 then [digitChar n] else decimal (n div 10) @ [digitChar (n mod 10)])"

declare decimal.simps [simp del]

text \<open>
  \<^verbatim>\<open>Number::toString\<close> (ECMA-262 6.1.6.1.20) prints the digits \<open>s\<close> of the shortest decimal
  \<open>s * 10^p\<close> that rounds to the number, the nearest to it when there are several.
  \<open>pickDigits x p\<close> looks at the two multiples of \<open>10^p\<close> around \<open>x\<close>, and
  \<open>shortestRoundTrip\<close> goes from the highest power down, so that the first hit has the
  fewest digits.
\<close>

definition roundsTo :: "nat \<Rightarrow> nat \<Rightarrow> bool" where
  "roundsTo x v = (roundToDouble v = x)"

definition pickDigits :: "nat \<Rightarrow> nat \<Rightarrow> nat option" where
  "pickDigits x p =
    (let lo = (x div 10 ^ p) * 10 ^ p; hi = lo + 10 ^ p
     in if roundsTo x lo \<and> roundsTo x hi
          then Some (if x - lo < hi - x then lo
                     else if hi - x < x - lo then hi
                     else if even (x div 10 ^ p) then lo else hi)
        else if roundsTo x lo then Some lo
        else if roundsTo x hi then Some hi
        else None)"

fun shortestRoundTrip :: "nat \<Rightarrow> nat \<Rightarrow> nat" where
  "shortestRoundTrip x 0 = (case pickDigits x 0 of None \<Rightarrow> x | Some v \<Rightarrow> v)"
| "shortestRoundTrip x (Suc p) =
    (case pickDigits x (Suc p) of None \<Rightarrow> shortestRoundTrip x p | Some v \<Rightarrow> v)"

text \<open>
  The form with an exponent, for a decimal of more than 21 digits: the first significant
  digit, the others after a point, and the exponent.
\<close>

definition exponentForm :: "nat \<Rightarrow> string" where
  "exponentForm v =
    (let ds = decimal v;
         sig = rev (dropWhile (\<lambda>c. c = CHR ''0'') (rev ds))
     in take 1 sig @ (if drop 1 sig = [] then [] else CHR ''.'' # drop 1 sig)
        @ ''e+'' @ decimal (length ds - 1))"

definition NumberToString :: "jsnum \<Rightarrow> string" where
  "NumberToString x =
    (case x of NaN \<Rightarrow> ''NaN''
     | Infty negative \<Rightarrow> (if negative then ''-Infinity'' else ''Infinity'')
     | Fin i \<Rightarrow>
         let v = shortestRoundTrip (nat \<bar>i\<bar>) (length (decimal (nat \<bar>i\<bar>)) - 1);
             body = (if length (decimal v) \<le> 21 then decimal v else exponentForm v)
         in (if i < 0 then CHR ''-'' # body else body))"

text \<open>The coercion a template literal \<^verbatim>\<open>${v}\<close> applies.\<close>

definition ToString :: "jsval \<Rightarrow> string" where
  "ToString v =
    (case v of JUndefined \<Rightarrow> ''undefined'' | JNull \<Rightarrow> ''null''
     | JBool b \<Rightarrow> (if b then ''true'' else ''false'')
     | JNum x \<Rightarrow> NumberToString x
     | JStr s \<Rightarrow> s)"

text \<open>Truthiness, as \<^verbatim>\<open>if (v)\<close>, \<^verbatim>\<open>!v\<close>, \<^verbatim>\<open>v || w\<close> and \<^verbatim>\<open>Boolean(v)\<close> test it.\<close>

definition truthy :: "jsval \<Rightarrow> bool" where
  "truthy v =
    (case v of JUndefined \<Rightarrow> False | JNull \<Rightarrow> False | JBool b \<Rightarrow> b
     | JNum x \<Rightarrow> (case x of NaN \<Rightarrow> False | Infty negative \<Rightarrow> True | Fin i \<Rightarrow> i \<noteq> 0)
     | JStr s \<Rightarrow> s \<noteq> [])"

text \<open>
  A property that holds a string or is missing (an environment variable, a path
  argument) is a \<open>string option\<close>; it is truthy when present and not empty.
\<close>

definition truthyStr :: "string option \<Rightarrow> bool" where
  "truthyStr v = (case v of None \<Rightarrow> False | Some s \<Rightarrow> s \<noteq> [])"

text \<open>\<^verbatim>\<open>a || b\<close> on two such properties.\<close>

definition orElse :: "string option \<Rightarrow> string option \<Rightarrow> string option" where
  "orElse a b = (if truthyStr a then a else b)"

text \<open>\<^verbatim>\<open>a || b\<close> where \<open>b\<close> is a string that is always there.\<close>

definition strOr :: "string option \<Rightarrow> string \<Rightarrow> string" where
  "strOr a b = (case a of None \<Rightarrow> b | Some s \<Rightarrow> (if s = [] then b else s))"

subsection \<open>parseInt\<close>

text \<open>
  \<^verbatim>\<open>StrWhiteSpaceChar\<close>: tab, line feed, vertical tab, form feed, carriage return, space
  and the no-break space; its other members are code units from 256 on.
\<close>

definition isWhiteSpace :: "char \<Rightarrow> bool" where
  "isWhiteSpace c =
    (c = CHR 0x09 \<or> c = CHR 0x0A \<or> c = CHR 0x0B \<or> c = CHR 0x0C \<or> c = CHR 0x0D \<or> c = CHR '' ''
     \<or> c = CHR 0xA0)"

definition digitValue :: "char \<Rightarrow> nat option" where
  "digitValue c =
    (let n = (of_char c :: nat) in
     if 48 \<le> n \<and> n \<le> 57 then Some (n - 48)
     else if 97 \<le> n \<and> n \<le> 122 then Some (n - 87)
     else if 65 \<le> n \<and> n \<le> 90 then Some (n - 55)
     else None)"

definition isRadixDigit :: "nat \<Rightarrow> char \<Rightarrow> bool" where
  "isRadixDigit R c = (case digitValue c of None \<Rightarrow> False | Some d \<Rightarrow> d < R)"

definition digitsValue :: "nat \<Rightarrow> string \<Rightarrow> nat" where
  "digitsValue R Z = foldl (\<lambda>acc c. acc * R + (case digitValue c of None \<Rightarrow> 0 | Some d \<Rightarrow> d)) 0 Z"

text \<open>
  \<^verbatim>\<open>parseInt(string, radix)\<close> (ECMA-262 19.2.5) on a string; radix \<open>0\<close> stands for an
  omitted radix. Leading white space is skipped, one sign is read, a \<^verbatim>\<open>0x\<close> prefix is
  stripped when the radix is omitted or 16, and the longest prefix of digits is the value,
  rounded to a double; no digit at all gives \<^verbatim>\<open>NaN\<close>. (The standard lets an implementation
  read the decimal digits after the twentieth as zeros; the digits are read exactly here.)
\<close>

definition parseInt :: "string \<Rightarrow> nat \<Rightarrow> jsnum" where
  "parseInt inputString radix =
    (let S = dropWhile isWhiteSpace inputString;
         negative = (take 1 S = ''-'');
         S1 = (if take 1 S = ''+'' \<or> take 1 S = ''-'' then drop 1 S else S)
     in if radix \<noteq> 0 \<and> (radix < 2 \<or> 36 < radix) then NaN
        else
          let stripPrefix = (radix = 0 \<or> radix = 16);
              hex = (stripPrefix \<and> (take 2 S1 = ''0x'' \<or> take 2 S1 = ''0X''));
              S2 = (if hex then drop 2 S1 else S1);
              R = (if hex then 16 else if radix = 0 then 10 else radix);
              Z = takeWhile (isRadixDigit R) S2
          in if Z = [] then NaN
             else toDouble ((if negative then - 1 else 1) * int (digitsValue R Z)))"

text \<open>\<^verbatim>\<open>parseInt(v, radix)\<close> on any value: the argument is first coerced to a string.\<close>

definition parseIntOf :: "jsval \<Rightarrow> nat \<Rightarrow> jsnum" where
  "parseIntOf v radix = parseInt (ToString v) radix"

subsection \<open>Decimal literals: parseFloat and isNaN\<close>

text \<open>
  A parsed floating-point literal is kept as the exact rational it denotes (the rounding
  to the nearest double is not part of the model), or as an infinity, or \<^verbatim>\<open>NaN\<close>.
\<close>

datatype jsfloat = FNaN | FInf bool | FFin rat

definition isDecimalDigit :: "char \<Rightarrow> bool" where
  "isDecimalDigit c = isRadixDigit 10 c"

text \<open>
  The longest prefix that is a \<^verbatim>\<open>StrUnsignedDecimalLiteral\<close> other than \<^verbatim>\<open>Infinity\<close>:
  digits, an optional fraction, an optional exponent. The result is the value and the
  unread rest.
\<close>

definition scanDecimal :: "string \<Rightarrow> (rat \<times> string) option" where
  "scanDecimal s =
    (let ip = takeWhile isDecimalDigit s;
         r1 = dropWhile isDecimalDigit s;
         dot = (take 1 r1 = ''.'');
         fp = (if dot then takeWhile isDecimalDigit (drop 1 r1) else []);
         r2 = (if dot then dropWhile isDecimalDigit (drop 1 r1) else r1)
     in if ip = [] \<and> fp = [] then None
        else
          let mant = of_nat (digitsValue 10 ip) + of_nat (digitsValue 10 fp) / 10 ^ length fp;
              e = (take 1 r2 = ''e'' \<or> take 1 r2 = ''E'');
              r3 = drop 1 r2;
              eneg = (take 1 r3 = ''-'');
              r4 = (if take 1 r3 = ''+'' \<or> take 1 r3 = ''-'' then drop 1 r3 else r3);
              ed = takeWhile isDecimalDigit r4
          in if e \<and> ed \<noteq> []
             then Some (if eneg then mant / 10 ^ digitsValue 10 ed else mant * 10 ^ digitsValue 10 ed,
                        dropWhile isDecimalDigit r4)
             else Some (mant, r2))"

text \<open>\<^verbatim>\<open>parseFloat(string)\<close> (ECMA-262 19.2.4) on a string.\<close>

definition parseFloat :: "string \<Rightarrow> jsfloat" where
  "parseFloat inputString =
    (let S = dropWhile isWhiteSpace inputString;
         negative = (take 1 S = ''-'');
         S1 = (if take 1 S = ''+'' \<or> take 1 S = ''-'' then drop 1 S else S)
     in if take 8 S1 = ''Infinity'' then FInf negative
        else (case scanDecimal S1 of None \<Rightarrow> FNaN
              | Some (v, rest) \<Rightarrow> FFin (if negative then - v else v)))"

text \<open>
  \<^verbatim>\<open>ToNumber\<close> on a string (\<^verbatim>\<open>StringToNumber\<close>): trimmed of white space, the empty string is
  \<open>0\<close>, and otherwise the whole text must be one numeric literal: an unsigned \<^verbatim>\<open>0x\<close>,
  \<^verbatim>\<open>0o\<close> or \<^verbatim>\<open>0b\<close> integer, or a signed decimal literal or \<^verbatim>\<open>Infinity\<close>.
\<close>

definition radixLiteral :: "nat \<Rightarrow> string \<Rightarrow> jsfloat" where
  "radixLiteral R ds =
    (if ds \<noteq> [] \<and> list_all (isRadixDigit R) ds then FFin (of_nat (digitsValue R ds)) else FNaN)"

definition StringToNumber :: "string \<Rightarrow> jsfloat" where
  "StringToNumber s =
    (let t = rev (dropWhile isWhiteSpace (rev (dropWhile isWhiteSpace s)));
         negative = (take 1 t = ''-'');
         u = (if take 1 t = ''+'' \<or> take 1 t = ''-'' then drop 1 t else t)
     in if t = [] then FFin 0
        else if take 2 t = ''0x'' \<or> take 2 t = ''0X'' then radixLiteral 16 (drop 2 t)
        else if take 2 t = ''0o'' \<or> take 2 t = ''0O'' then radixLiteral 8 (drop 2 t)
        else if take 2 t = ''0b'' \<or> take 2 t = ''0B'' then radixLiteral 2 (drop 2 t)
        else if u = ''Infinity'' then FInf negative
        else (case scanDecimal u of None \<Rightarrow> FNaN
              | Some (v, rest) \<Rightarrow> (if rest = [] then FFin (if negative then - v else v) else FNaN)))"

definition ToNumber :: "jsval \<Rightarrow> jsfloat" where
  "ToNumber v =
    (case v of JUndefined \<Rightarrow> FNaN | JNull \<Rightarrow> FFin 0
     | JBool b \<Rightarrow> FFin (if b then 1 else 0)
     | JNum x \<Rightarrow> (case x of NaN \<Rightarrow> FNaN | Infty negative \<Rightarrow> FInf negative
                | Fin i \<Rightarrow> FFin (of_int i))
     | JStr s \<Rightarrow> StringToNumber s)"

text \<open>\<^verbatim>\<open>isNaN(v)\<close>: the value is coerced to a number first.\<close>

definition isNaN :: "jsval \<Rightarrow> bool" where
  "isNaN v = (ToNumber v = FNaN)"

text \<open>\<^verbatim>\<open>ToLength\<close>, which reads the \<^verbatim>\<open>length\<close> of an array-like object.\<close>

definition ToLength :: "jsval \<Rightarrow> nat" where
  "ToLength v =
    (case ToNumber v of FNaN \<Rightarrow> 0
     | FInf negative \<Rightarrow> (if negative then 0 else 2 ^ 53 - 1)
     | FFin r \<Rightarrow> min (nat \<lfloor>r\<rfloor>) (2 ^ 53 - 1))"

section \<open>The path module (POSIX) and the file system\<close>

definition isAbsolute :: "string \<Rightarrow> bool" where
  "isAbsolute p = (take 1 p = ''/'')"

fun splitSlash :: "string \<Rightarrow> string list" where
  "splitSlash [] = [[]]"
| "splitSlash (c # cs) =
    (if c = CHR ''/'' then [] # splitSlash cs
     else (case splitSlash cs of [] \<Rightarrow> [[c]] | s # ss \<Rightarrow> (c # s) # ss))"

fun joinSlash :: "string list \<Rightarrow> string" where
  "joinSlash [] = []"
| "joinSlash [s] = s"
| "joinSlash (s # t # ss) = s @ ''/'' @ joinSlash (t # ss)"

text \<open>
  Node's \<^verbatim>\<open>normalizeString\<close>, on the segments between separators: empty and \<^verbatim>\<open>.\<close> segments
  are dropped, \<^verbatim>\<open>..\<close> removes the segment before it, and is kept only above the start of a
  relative path.
\<close>

fun normalizeString :: "bool \<Rightarrow> string list \<Rightarrow> string list \<Rightarrow> string list" where
  "normalizeString allowAboveRoot res [] = res"
| "normalizeString allowAboveRoot res (s # ss) =
    (if s = [] \<or> s = ''.'' then normalizeString allowAboveRoot res ss
     else if s = ''..'' then
       (if res \<noteq> [] \<and> last res \<noteq> ''..'' then normalizeString allowAboveRoot (butlast res) ss
        else if allowAboveRoot then normalizeString allowAboveRoot (res @ [''..'']) ss
        else normalizeString allowAboveRoot res ss)
     else normalizeString allowAboveRoot (res @ [s]) ss)"

text \<open>
  \<^verbatim>\<open>path.resolve(...paths)\<close>: the arguments are taken from the right until an absolute one
  is met, the working directory last; the first argument of \<open>resolveLoop\<close> is that
  right-to-left sequence.
\<close>

fun resolveLoop :: "string list \<Rightarrow> string \<Rightarrow> string" where
  "resolveLoop [] resolvedPath = resolvedPath"
| "resolveLoop (p # ps) resolvedPath =
    (if p = [] then resolveLoop ps resolvedPath
     else if isAbsolute p then p @ ''/'' @ resolvedPath
     else resolveLoop ps (p @ ''/'' @ resolvedPath))"

definition path_resolve :: "string \<Rightarrow> string list \<Rightarrow> string" where
  "path_resolve workdir paths =
    (let resolvedPath = resolveLoop (rev paths @ [workdir]) [];
         resolvedAbsolute = isAbsolute resolvedPath;
         normalized = joinSlash (normalizeString (\<not> resolvedAbsolute) [] (splitSlash resolvedPath))
     in if resolvedAbsolute then CHR ''/'' # normalized
        else if normalized \<noteq> [] then normalized else ''.'')"

text \<open>
  \<^verbatim>\<open>path.dirname(p)\<close>: scanning from the right over the indices \<open>\<ge> 1\<close>, trailing separators
  are skipped, then the last segment; the separator found there ends the result.
\<close>

definition dirname :: "string \<Rightarrow> string" where
  "dirname p =
    (case p of [] \<Rightarrow> ''.''
     | c # cs \<Rightarrow>
        let hasRoot = (c = CHR ''/'');
            r = dropWhile (\<lambda>x. x \<noteq> CHR ''/'') (dropWhile (\<lambda>x. x = CHR ''/'') (rev cs))
        in if r = [] then (if hasRoot then ''/'' else ''.'')
           else if hasRoot \<and> length r = 1 then ''//''
           else c # rev (tl r))"

text \<open>
  The file system is a map from path texts to what is found there. A path is looked up
  by its text as the program passes it; links and the \<^verbatim>\<open>.\<close> and \<^verbatim>\<open>..\<close> entries are not
  interpreted.
\<close>

datatype node = File string | Dir

type_synonym filesystem = "string \<rightharpoonup> node"

text \<open>A thrown \<^verbatim>\<open>Error\<close>, with its message.\<close>

datatype exn = Error string

fun exn_message :: "exn \<Rightarrow> string" where
  "exn_message (Error m) = m"

definition existsSync :: "filesystem \<Rightarrow> string \<Rightarrow> bool" where
  "existsSync fs p = (fs p \<noteq> None)"

definition readFileSync :: "filesystem \<Rightarrow> string \<Rightarrow> exn + string" where
  "readFileSync fs p =
    (case fs p of
       None \<Rightarrow> Inl (Error (''ENOENT: no such file or directory, open '' @ [CHR 0x27] @ p @ [CHR 0x27]))
     | Some Dir \<Rightarrow> Inl (Error ''EISDIR: illegal operation on a directory, read'')
     | Some (File content) \<Rightarrow> Inr content)"

text \<open>
  The chain of a path and its parents, nearest first, up to the fixed point of
  \<open>dirname\<close>; the first argument bounds the number of steps (the path's length is enough).
\<close>

fun parents :: "nat \<Rightarrow> string \<Rightarrow> string list" where
  "parents 0 p = [p]"
| "parents (Suc n) p = (if dirname p = p then [p] else p # parents n (dirname p))"

text \<open>
  \<^verbatim>\<open>fs.mkdirSync(p, { recursive: true })\<close>: it throws when the path or one of its parents
  is a regular file, and otherwise makes a directory of each one that is missing.
\<close>

definition mkdirSync_recursive :: "filesystem \<Rightarrow> string \<Rightarrow> exn + filesystem" where
  "mkdirSync_recursive fs p =
    (let chain = parents (length p) p
     in if list_ex (\<lambda>d. case fs d of Some (File c) \<Rightarrow> True | _ \<Rightarrow> False) chain
        then Inl (Error (''ENOTDIR: not a directory, mkdir '' @ [CHR 0x27] @ p @ [CHR 0x27]))
        else Inr (foldr (\<lambda>d m. if m d = None then m(d \<mapsto> Dir) else m) chain fs))"

text \<open>
  \<^verbatim>\<open>fs.writeFileSync(p, content, 'utf8')\<close>: it throws on a directory and under a missing
  parent directory, and otherwise creates or replaces the file.
\<close>

definition writeFileSync :: "filesystem \<Rightarrow> string \<Rightarrow> string \<Rightarrow> exn + filesystem" where
  "writeFileSync fs p content =
    (if fs p = Some Dir
       then Inl (Error (''EISDIR: illegal operation on a directory, open '' @ [CHR 0x27] @ p @ [CHR 0x27]))
     else if fs (dirname p) \<noteq> Some Dir
       then Inl (Error (''ENOENT: no such file or directory, open '' @ [CHR 0x27] @ p @ [CHR 0x27]))
     else Inr (fs(p \<mapsto> File content)))"

section \<open>The process, the session and the logger\<close>

text \<open>
  \<^verbatim>\<open>session?.env\<close>: the session may be missing, and so may its environment. An environment
  maps names to strings.
\<close>

record session =
  env :: "(string \<rightharpoonup> string) option"

definition session_env :: "session option \<Rightarrow> string \<Rightarrow> string option" where
  "session_env s k =
    (case s of None \<Rightarrow> None
     | Some ss \<Rightarrow> (case env ss of None \<Rightarrow> None | Some e \<Rightarrow> e k))"

text \<open>The argument object of the \<^verbatim>\<open>parse_prd\<close> tool; the fields \<^verbatim>\<open>input\<close>,
  \<^verbatim>\<open>output\<close> and \<^verbatim>\<open>append\<close> carry the suffix \<open>_arg\<close> here.\<close>

record args =
  projectRoot :: "string option"
  input_arg :: "string option"
  output_arg :: "string option"
  numTasks :: jsval
  append_arg :: jsval

datatype level = LogInfo | LogWarn | LogError

text \<open>The sample document of \<open>parsePRDDirect\<close>, before it is serialised.\<close>

record task =
  task_id :: nat
  title :: string
  description :: string
  status :: string
  dependencies :: "nat list"
  priority :: string
  task_details :: string
  testStrategy :: string

record metadata =
  projectName :: string
  totalTasks :: jsval
  sourceFile :: string
  generatedAt :: string

record sampleOutput =
  tasks :: "task list"
  sample_metadata :: metadata

text \<open>
  What a call can read or change outside its arguments: \<^verbatim>\<open>process.env\<close>, the file system,
  the lines handed to the logger, the working directory, and the date
  \<^verbatim>\<open>new Date().toISOString().split('T')[0]\<close>. \<^verbatim>\<open>JSON.stringify\<close> is the runtime's: the key
  order of the argument object is the caller's, so its two uses are taken as given.
\<close>

record world =
  process_env :: "string \<rightharpoonup> string"
  files :: filesystem
  logged :: "(level \<times> string) list"
  workdir :: string
  today :: string
  stringify_args :: "args \<Rightarrow> string"
  stringify_output :: "sampleOutput \<Rightarrow> string"

definition log_info :: "world \<Rightarrow> string \<Rightarrow> world" where
  "log_info w m = w\<lparr>logged := logged w @ [(LogInfo, m)]\<rparr>"

definition log_warn :: "world \<Rightarrow> string \<Rightarrow> world" where
  "log_warn w m = w\<lparr>logged := logged w @ [(LogWarn, m)]\<rparr>"

definition log_error :: "world \<Rightarrow> string \<Rightarrow> world" where
  "log_error w m = w\<lparr>logged := logged w @ [(LogError, m)]\<rparr>"

section \<open>ai-client-utils.js\<close>

subsection \<open>The mock clients\<close>

text \<open>
  A client object is known by its class and the options it was constructed with
  (\<^verbatim>\<open>constructor(options = {})\<close>); \<open>no_options\<close> is the empty object.
\<close>

record client_options =
  apiKey :: "string option"
  defaultHeaders :: "(string \<times> string) list"
  baseURL :: "string option"

definition no_options :: client_options where
  "no_options = \<lparr>apiKey = None, defaultHeaders = [], baseURL = None\<rparr>"

datatype client = MockAnthropicClient client_options | MockPerplexityClient client_options

text \<open>
  The parameters of \<^verbatim>\<open>messages.create\<close> that the mock reads: \<^verbatim>\<open>params.model\<close> and
  \<^verbatim>\<open>params.stream\<close>. A message and the blocks of the stream are the object literals of the
  source, field by field.
\<close>

record params =
  params_model :: "string option"
  params_stream :: bool

record content_item =
  content_type :: string
  content_text :: string

record message =
  message_id :: string
  message_type :: string
  role :: string
  content :: "content_item list"
  message_model :: string
  stop_reason :: string
  usage :: "(nat \<times> nat) option"

record content_block =
  block_type :: string
  block_id :: string

datatype event =
    content_block_start content_block
  | content_block_delta string nat
  | content_block_stop content_block
  | message_stop message

text \<open>
  \<^verbatim>\<open>generateResponse\<close> returns the sentinel; its two \<^verbatim>\<open>console.log\<close> lines are diagnostics
  and leave no trace here.
\<close>

definition generateResponse :: "params \<Rightarrow> string" where
  "generateResponse p = ''NOT_IMPLEMENTED''"

definition isLineTerminator :: "char \<Rightarrow> bool" where
  "isLineTerminator c = (c = CHR 0x0A \<or> c = CHR 0x0D)"

text \<open>
  \<^verbatim>\<open>response.match(/.{1,20}/g) || []\<close>: from left to right, each match takes as many
  characters as it can, at most 20, stopping before a line terminator; a position where
  nothing matches is skipped.
\<close>

function matchChunks :: "string \<Rightarrow> string list" where
  "matchChunks s =
    (if s = [] then []
     else if isLineTerminator (hd s) then matchChunks (tl s)
     else takeWhile (\<lambda>c. \<not> isLineTerminator c) (take 20 s)
            # matchChunks (drop (length (takeWhile (\<lambda>c. \<not> isLineTerminator c) (take 20 s))) s))"
  by pat_completeness auto
termination
proof (relation "measure length")
  fix s :: string
  assume "s \<noteq> []" and "\<not> isLineTerminator (hd s)"
  then have "takeWhile (\<lambda>c. \<not> isLineTerminator c) (take 20 s) \<noteq> []"
    by (cases s) auto
  then have "0 < length (takeWhile (\<lambda>c. \<not> isLineTerminator c) (take 20 s))"
    by simp
  with \<open>s \<noteq> []\<close>
  show "(drop (length (takeWhile (\<lambda>c. \<not> isLineTerminator c) (take 20 s))) s, s) \<in> measure length"
    by (cases s) auto
qed auto

declare matchChunks.simps [simp del]

definition mock_block :: content_block where
  "mock_block = \<lparr>block_type = ''text'', block_id = ''mock-block-id''\<rparr>"

definition createMockStream :: "params \<Rightarrow> event list" where
  "createMockStream p =
    (let response = generateResponse p;
         chunks = matchChunks response
     in [content_block_start mock_block]
        @ map (\<lambda>chunk. content_block_delta chunk 0) chunks
        @ [content_block_stop mock_block,
           message_stop \<lparr>message_id = ''mock-message-id'', message_type = ''message'',
             role = ''assistant'',
             content = [\<lparr>content_type = ''text'', content_text = response\<rparr>],
             message_model = strOr (params_model p) ''claude-3-7-sonnet-20250219'',
             stop_reason = ''end_turn'', usage = None\<rparr>])"

definition createMessages :: "params \<Rightarrow> event list + message" where
  "createMessages p =
    (if params_stream p then Inl (createMockStream p)
     else Inr \<lparr>message_id = ''mock-message-id'', message_type = ''message'',
             role = ''assistant'',
             content = [\<lparr>content_type = ''text'', content_text = generateResponse p\<rparr>],
             message_model = strOr (params_model p) ''claude-3-7-sonnet-20250219'',
             stop_reason = ''end_turn'', usage = Some (1000, 2000)\<rparr>)"

subsection \<open>Choosing the client\<close>

text \<open>
  The test the three functions below start with:
  \<^verbatim>\<open>process.env.CLAUDE_DESKTOP === 'true' || session?.env?.CLAUDE_DESKTOP === 'true'\<close>.
\<close>

definition usingClaudeDesktop :: "world \<Rightarrow> session option \<Rightarrow> bool" where
  "usingClaudeDesktop w s =
    (process_env w ''CLAUDE_DESKTOP'' = Some ''true''
     \<or> session_env s ''CLAUDE_DESKTOP'' = Some ''true'')"

definition getAnthropicClientForMCP :: "session option \<Rightarrow> world \<Rightarrow> (exn + client) \<times> world" where
  "getAnthropicClientForMCP s w =
    (if usingClaudeDesktop w s
       then (Inr (MockAnthropicClient no_options),
             log_info w ''Using Claude Desktop mode with mock Anthropic client'')
     else
       let key = orElse (session_env s ''ANTHROPIC_API_KEY'') (process_env w ''ANTHROPIC_API_KEY'')
       in if \<not> truthyStr key
            then
              let e = Error ''ANTHROPIC_API_KEY not found in session environment or process.env. Set CLAUDE_DESKTOP=true to use Claude Desktop mode.''
              in (Inl e, log_error w (''Failed to initialize Anthropic client: '' @ exn_message e))
          else (Inr (MockAnthropicClient
                      \<lparr>apiKey = key,
                       defaultHeaders = [(''anthropic-beta'', ''output-128k-2025-02-19'')],
                       baseURL = None\<rparr>),
                log_info w ''Using Anthropic API with provided key''))"

definition getPerplexityClientForMCP :: "session option \<Rightarrow> world \<Rightarrow> (exn + client) \<times> world" where
  "getPerplexityClientForMCP s w =
    (if usingClaudeDesktop w s
       then (Inr (MockPerplexityClient no_options),
             log_info w ''Using Claude Desktop mode with mock Perplexity client'')
     else
       let key = orElse (session_env s ''PERPLEXITY_API_KEY'') (process_env w ''PERPLEXITY_API_KEY'')
       in if \<not> truthyStr key
            then
              let e = Error ''PERPLEXITY_API_KEY not found in session environment or process.env. Set CLAUDE_DESKTOP=true to use Claude Desktop mode.''
              in (Inl e, log_error w (''Failed to initialize Perplexity client: '' @ exn_message e))
          else (Inr (MockPerplexityClient
                      \<lparr>apiKey = key, defaultHeaders = [],
                       baseURL = Some ''https://api.perplexity.ai''\<rparr>),
                log_info w ''Using Perplexity API with provided key''))"

subsection \<open>Model configuration\<close>

record modelConfig =
  model :: string
  maxTokens :: jsnum
  temperature :: jsfloat

definition DEFAULT_MODEL_CONFIG :: modelConfig where
  "DEFAULT_MODEL_CONFIG =
    \<lparr>model = ''claude-3-7-sonnet-20250219'', maxTokens = Fin 64000, temperature = FFin (2 / 10)\<rparr>"

text \<open>
  \<^verbatim>\<open>session?.env?.X || d\<close> where the default \<open>d\<close> is a number: the session's text when it is
  there and not empty, and otherwise the default.
\<close>

definition orDefault :: "string option \<Rightarrow> jsval \<Rightarrow> jsval" where
  "orDefault a d = (case a of None \<Rightarrow> d | Some v \<Rightarrow> (if v = [] then d else JStr v))"

text \<open>
  \<^verbatim>\<open>parseFloat(session?.env?.X || d)\<close>: the text is parsed; a default number is coerced to
  its own text, which parses back to that number.
\<close>

definition parseFloatOr :: "string option \<Rightarrow> jsfloat \<Rightarrow> jsfloat" where
  "parseFloatOr a d = (case a of None \<Rightarrow> d | Some v \<Rightarrow> (if v = [] then d else parseFloat v))"

text \<open>No radix is passed to \<^verbatim>\<open>parseInt\<close> here.\<close>

definition getModelConfig :: "session option \<Rightarrow> modelConfig \<Rightarrow> modelConfig" where
  "getModelConfig s defaults =
    \<lparr>model = strOr (session_env s ''MODEL'') (model defaults),
     maxTokens = parseIntOf (orDefault (session_env s ''MAX_TOKENS'') (JNum (maxTokens defaults))) 0,
     temperature = parseFloatOr (session_env s ''TEMPERATURE'') (temperature defaults)\<rparr>"

subsection \<open>Model selection\<close>

text \<open>
  The options object; a missing field takes its default \<^verbatim>\<open>false\<close> in the destructuring
  \<^verbatim>\<open>const { requiresResearch = false, claudeOverloaded = false } = options\<close>.
\<close>

record options =
  requiresResearch :: "bool option"
  claudeOverloaded :: "bool option"

record selection =
  selection_type :: string
  selection_client :: client

text \<open>The last block of \<^verbatim>\<open>getBestAvailableAIModel\<close>, reached on two paths.\<close>

definition defaultToClaude :: "session option \<Rightarrow> world \<Rightarrow> (exn + selection) \<times> world" where
  "defaultToClaude s w =
    (case getAnthropicClientForMCP s w of
       (Inr c, w1) \<Rightarrow> (Inr \<lparr>selection_type = ''claude'', selection_client = c\<rparr>, w1)
     | (Inl e, w1) \<Rightarrow>
         (Inl (Error ''No AI models available. Please check your API keys or enable Claude Desktop mode.''),
          log_error w1 (''Claude not available: '' @ exn_message e)))"

definition getBestAvailableAIModel ::
    "session option \<Rightarrow> options \<Rightarrow> world \<Rightarrow> (exn + selection) \<times> world" where
  "getBestAvailableAIModel s opts w =
    (if usingClaudeDesktop w s
       then
         (case getAnthropicClientForMCP s (log_info w ''Using Claude Desktop mode for AI operations'') of
            (Inr c, w1) \<Rightarrow> (Inr \<lparr>selection_type = ''claude'', selection_client = c\<rparr>, w1)
          | (Inl e, w1) \<Rightarrow> (Inl e, w1))
     else
       let research = (case requiresResearch opts of None \<Rightarrow> False | Some b \<Rightarrow> b);
           overloaded = (case claudeOverloaded opts of None \<Rightarrow> False | Some b \<Rightarrow> b)
       in if research
             \<and> truthyStr (orElse (session_env s ''PERPLEXITY_API_KEY'') (process_env w ''PERPLEXITY_API_KEY''))
            then
              (case getPerplexityClientForMCP s w of
                 (Inr c, w1) \<Rightarrow> (Inr \<lparr>selection_type = ''perplexity'', selection_client = c\<rparr>, w1)
               | (Inl e, w1) \<Rightarrow>
                   defaultToClaude s (log_warn w1 (''Perplexity not available: '' @ exn_message e)))
          else defaultToClaude s w)"

section \<open>parse-prd-direct.js\<close>

subsection \<open>The request builder\<close>

record generation =
  shouldBeHandledByClaudeDirectly :: bool
  systemPrompt :: string
  userPrompt :: string

text \<open>
  The template literal of the system prompt, one source line per item; \<open>n\<close> is
  \<^verbatim>\<open>numTasks\<close> and \<open>date\<close> is the date of the call.
\<close>

definition systemPromptText :: "jsval \<Rightarrow> string \<Rightarrow> string \<Rightarrow> string" where
  \<open>systemPromptText n prdPath date = concat
    [''You are an AI assistant tasked with breaking down a Product Requirements Document (PRD) into a set of sequential development tasks. Your goal is to create exactly '', ToString n, '' well-structured, actionable development tasks based on the PRD provided.\<newline>'',
     ''\<newline>'',
     ''First, carefully read and analyze the attached PRD\<newline>'',
     ''\<newline>'',
     ''Before creating the task list, work through the following steps inside <prd_breakdown> tags in your thinking block:\<newline>'',
     ''\<newline>'',
     ''1. List the key components of the PRD\<newline>'',
     ''2. Identify the main features and functionalities described\<newline>'',
     ''3. Note any specific technical requirements or constraints mentioned\<newline>'',
     ''4. Outline a high-level sequence of tasks that would be needed to implement the PRD\<newline>'',
     ''\<newline>'',
     ''Consider dependencies, maintainability, and the fact that you don't have access to any existing codebase. Balance between providing detailed task descriptions and maintaining a high-level perspective.\<newline>'',
     ''\<newline>'',
     ''After your breakdown, create a JSON object containing an array of tasks and a metadata object. Each task should follow this structure:\<newline>'',
     ''\<newline>'',
     ''{\<newline>'',
     ''  "id": number,\<newline>'',
     ''  "title": string,\<newline>'',
     ''  "description": string,\<newline>'',
     ''  "status": "pending",\<newline>'',
     ''  "dependencies": number[] (IDs of tasks this depends on),\<newline>'',
     ''  "priority": "high" | "medium" | "low",\<newline>'',
     ''  "details": string (implementation details),\<newline>'',
     ''  "testStrategy": string (validation approach)\<newline>'',
     ''}\<newline>'',
     ''\<newline>'',
     ''Guidelines for creating tasks:\<newline>'',
     ''1. Number tasks from 1 to '', ToString n, ''.\<newline>'',
     ''2. Make each task atomic and focused on a single responsibility.\<newline>'',
     ''3. Order tasks logically, considering dependencies and implementation sequence.\<newline>'',
     ''4. Start with setup and core functionality, then move to advanced features.\<newline>'',
     ''5. Provide a clear validation/testing approach for each task.\<newline>'',
     ''6. Set appropriate dependency IDs (tasks can only depend on lower-numbered tasks).\<newline>'',
     ''7. Assign priority based on criticality and dependency order.\<newline>'',
     ''8. Include detailed implementation guidance in the "details" field.\<newline>'',
     ''9. Strictly adhere to any specific requirements for libraries, database schemas, frameworks, tech stacks, or other implementation details mentioned in the PRD.\<newline>'',
     ''10. Fill in gaps left by the PRD while preserving all explicit requirements.\<newline>'',
     ''11. Provide the most direct path to implementation, avoiding over-engineering.\<newline>'',
     ''\<newline>'',
     ''The final output should be valid JSON with this structure:\<newline>'',
     ''\<newline>'',
     ''{\<newline>'',
     ''  "tasks": [\<newline>'',
     ''    {\<newline>'',
     ''      "id": 1,\<newline>'',
     ''      "title": "Example Task Title",\<newline>'',
     ''      "description": "Brief description of the task",\<newline>'',
     ''      "status": "pending",\<newline>'',
     ''      "dependencies": [],\<newline>'',
     ''      "priority": "high",\<newline>'',
     ''      "details": "Detailed implementation guidance",\<newline>'',
     ''      "testStrategy": "Approach for validating this task"\<newline>'',
     ''    },\<newline>'',
     ''    // ... more tasks ...\<newline>'',
     ''  ],\<newline>'',
     ''  "metadata": {\<newline>'',
     ''    "projectName": "PRD Implementation",\<newline>'',
     ''    "totalTasks": '', ToString n, '',\<newline>'',
     ''    "sourceFile": "'', prdPath, ''",\<newline>'',
     ''    "generatedAt": "'', date, ''"\<newline>'',
     ''  }\<newline>'',
     ''}\<newline>'',
     ''\<newline>'',
     ''Remember to provide comprehensive task details that are LLM-friendly, consider dependencies and maintainability carefully, and keep in mind that you don't have the existing codebase as context. Aim for a balance between detailed guidance and high-level planning.\<newline>'',
     ''\<newline>'',
     ''Your response should be valid JSON only, with no additional explanation or comments.'']\<close>

definition generateTasksFromPRD ::
    "string \<Rightarrow> string \<Rightarrow> jsval \<Rightarrow> world \<Rightarrow> generation \<times> world" where
  "generateTasksFromPRD prdContent prdPath n w =
    (let w1 = log_info w (''Generating '' @ ToString n @ '' tasks from PRD at '' @ prdPath);
         w2 = log_info w1 ''Claude is analyzing the PRD and generating tasks...''
     in (\<lparr>shouldBeHandledByClaudeDirectly = True,
          systemPrompt = systemPromptText n prdPath (today w),
          userPrompt = ''Here's the Product Requirements Document (PRD) to break down into ''
            @ ToString n @ '' tasks:\<newline>\<newline>'' @ prdContent\<rparr>, w2))"

subsection \<open>The result envelope\<close>

record error_info =
  code :: string
  error_message :: string
  details :: "string option"

text \<open>The \<^verbatim>\<open>data\<close> object of the envelope that hands the prompts back to the caller.\<close>

record delegation =
  data_message :: string
  data_shouldBeHandledByClaudeDirectly :: bool
  data_systemPrompt :: string
  data_userPrompt :: string
  data_outputPath :: string
  data_numTasks :: jsval
  data_append :: bool

text \<open>The \<^verbatim>\<open>data\<close> object of the envelope returned after the file has been written.\<close>

record completion =
  done_message :: string
  taskCount :: jsval
  done_outputPath :: string
  appended :: bool

datatype payload = Delegated delegation | Completed completion

record envelope =
  success :: bool
  data :: "payload option"
  error :: "error_info option"
  fromCache :: bool

definition failure :: "string \<Rightarrow> string \<Rightarrow> string option \<Rightarrow> envelope" where
  "failure c m d =
    \<lparr>success = False, data = None,
     error = Some \<lparr>code = c, error_message = m, details = d\<rparr>, fromCache = False\<rparr>"

subsection \<open>parsePRDDirect\<close>

text \<open>
  The argument \<^verbatim>\<open>context\<close> is known by its \<^verbatim>\<open>session\<close>. A path argument that has passed
  validation is read with \<open>str\<close>, which is also what a template literal prints for it.
\<close>

record call_context =
  context_session :: "session option"

definition str :: "string option \<Rightarrow> string" where
  "str v = (case v of None \<Rightarrow> ''undefined'' | Some t \<Rightarrow> t)"

text \<open>The handler of the outer \<^verbatim>\<open>try\<close>: every exception thrown in the body ends here.\<close>

definition catchAll :: "exn \<Rightarrow> world \<Rightarrow> envelope \<times> world" where
  "catchAll e w =
    (failure ''PARSE_PRD_ERROR''
       (if exn_message e \<noteq> [] then exn_message e else ''Unknown error parsing PRD'') None,
     log_error w (''Error parsing PRD: '' @ exn_message e))"

text \<open>Ensure that the output directory exists.\<close>

definition ensureOutputDir :: "string \<Rightarrow> world \<Rightarrow> (exn + unit) \<times> world" where
  "ensureOutputDir outputDir w =
    (if \<not> existsSync (files w) outputDir
       then
         let w1 = log_info w (''Creating output directory: '' @ outputDir)
         in (case mkdirSync_recursive (files w1) outputDir of
               Inl e \<Rightarrow> (Inl e, w1)
             | Inr fs' \<Rightarrow> (Inr (), w1\<lparr>files := fs'\<rparr>))
     else (Inr (), w))"

text \<open>
  Parse the number of tasks: the default is 10; a truthy argument is parsed when it is a
  string and kept otherwise; a result that \<^verbatim>\<open>isNaN\<close> rejects is replaced by 10 with a warning.
\<close>

definition parseNumTasks :: "jsval \<Rightarrow> world \<Rightarrow> jsval \<times> world" where
  "parseNumTasks v w =
    (if truthy v
       then
         let n = (case v of JStr t \<Rightarrow> JNum (parseInt t 10) | _ \<Rightarrow> v)
         in if isNaN n
              then (JNum (Fin 10),
                    log_warn w (''Invalid numTasks value: '' @ ToString v @ ''. Using default: 10''))
            else (n, w)
     else (JNum (Fin 10), w))"

text \<open>
  The code after the test of \<^verbatim>\<open>shouldBeHandledByClaudeDirectly\<close>: a sample document of
  \<^verbatim>\<open>numTasks\<close> tasks is written to the output file. \<^verbatim>\<open>Array.from\<close> throws a \<^verbatim>\<open>RangeError\<close> on
  a length that is no array length.
\<close>

definition sampleTask :: "nat \<Rightarrow> task" where
  "sampleTask i =
    \<lparr>task_id = i + 1, title = ''Task '' @ decimal (i + 1),
     description = ''Sample task description'', status = ''pending'', dependencies = [],
     priority = ''medium'', task_details = ''Sample task details'',
     testStrategy = ''Sample test strategy''\<rparr>"

definition writeSampleOutput ::
    "string \<Rightarrow> string \<Rightarrow> jsval \<Rightarrow> bool \<Rightarrow> world \<Rightarrow> envelope \<times> world" where
  "writeSampleOutput inputPath outputPath n append_flag w =
    (if 2 ^ 32 - 1 < ToLength n then catchAll (Error ''Invalid array length'') w
     else
       let sample = \<lparr>tasks = map sampleTask [0 ..< ToLength n],
                     sample_metadata = \<lparr>projectName = ''PRD Implementation'', totalTasks = n,
                       sourceFile = inputPath, generatedAt = today w\<rparr>\<rparr>
       in (case writeFileSync (files w) outputPath (stringify_output w sample) of
             Inl e \<Rightarrow> catchAll e w
           | Inr fs' \<Rightarrow>
               let actionVerb = (if append_flag then ''appended'' else ''generated'');
                   m = ''Successfully '' @ actionVerb @ '' '' @ ToString n @ '' tasks from PRD''
               in (\<lparr>success = True,
                    data = Some (Completed \<lparr>done_message = m, taskCount = n,
                             done_outputPath = outputPath, appended = append_flag\<rparr>),
                    error = None, fromCache = False\<rparr>,
                   log_info (w\<lparr>files := fs'\<rparr>) m)))"

text \<open>
  The paths, as the function resolves them: an absolute argument is taken as it is, a
  relative one is resolved against the project root.
\<close>

definition resolveArg :: "world \<Rightarrow> string \<Rightarrow> string \<Rightarrow> string" where
  "resolveArg w rootDir p = (if isAbsolute p then p else path_resolve (workdir w) [rootDir, p])"

text \<open>
  The function is written in three parts, in the order of the source: what follows the
  reading of the document (\<open>parsePRDDirect_generate\<close>), the resolution and reading of the
  input (\<open>parsePRDDirect_read\<close>), and the entry with the validation of the arguments.
\<close>

definition parsePRDDirect_generate ::
    "args \<Rightarrow> session option \<Rightarrow> string \<Rightarrow> string \<Rightarrow> string \<Rightarrow> world \<Rightarrow> envelope \<times> world" where
  "parsePRDDirect_generate a s rootDir inputPath prdContent w3 =
    (let w4 = log_info w3 (''Read '' @ decimal (length prdContent) @ '' bytes from '' @ inputPath);
         outputPath = resolveArg w4 rootDir (str (output_arg a))
     in (case ensureOutputDir (dirname outputPath) w4 of
           (Inl e, w5) \<Rightarrow> catchAll e w5
         | (Inr u, w5) \<Rightarrow>
             (case parseNumTasks (numTasks a) w5 of
                (n, w6) \<Rightarrow>
                  let append_flag = truthy (append_arg a);
                      w7 = log_info w6 (''Preparing to parse PRD from '' @ inputPath
                             @ '' and output to '' @ outputPath @ '' with '' @ ToString n
                             @ '' tasks, append mode: ''
                             @ (if append_flag then ''true'' else ''false''));
                      modelConfig = getModelConfig s DEFAULT_MODEL_CONFIG
                  in (case generateTasksFromPRD prdContent inputPath n w7 of
                        (result, w8) \<Rightarrow>
                          if shouldBeHandledByClaudeDirectly result
                            then
                              (\<lparr>success = True,
                                data = Some (Delegated
                                  \<lparr>data_message = ''PRD parsing should be handled directly by Claude'',
                                   data_shouldBeHandledByClaudeDirectly = True,
                                   data_systemPrompt = systemPrompt result,
                                   data_userPrompt = userPrompt result,
                                   data_outputPath = outputPath,
                                   data_numTasks = n,
                                   data_append = append_flag\<rparr>),
                                error = None, fromCache = False\<rparr>, w8)
                          else writeSampleOutput inputPath outputPath n append_flag w8))))"

definition parsePRDDirect_read :: "args \<Rightarrow> session option \<Rightarrow> world \<Rightarrow> envelope \<times> world" where
  "parsePRDDirect_read a s w3 =
    (let rootDir = str (projectRoot a);
         inputPath = resolveArg w3 rootDir (str (input_arg a))
     in if \<not> existsSync (files w3) inputPath
          then (failure ''INPUT_FILE_NOT_FOUND'' (''Input file not found: '' @ inputPath)
                  (Some (''Checked path: '' @ inputPath @ ''\<newline>Project root: '' @ rootDir
                         @ ''\<newline>Input argument: '' @ str (input_arg a))),
                log_error w3 (''Input file not found: '' @ inputPath))
        else
          (case readFileSync (files w3) inputPath of
             Inl e \<Rightarrow> catchAll e w3
           | Inr prdContent \<Rightarrow> parsePRDDirect_generate a s rootDir inputPath prdContent w3))"

definition parsePRDDirect :: "args \<Rightarrow> call_context \<Rightarrow> world \<Rightarrow> envelope \<times> world" where
  "parsePRDDirect a ctx w0 =
    (let s = context_session ctx;
         w1 = log_info w0 (''Parsing PRD document with args: '' @ stringify_args w0 a);
         w2 = w1\<lparr>process_env := (process_env w1)(''CLAUDE_DESKTOP'' \<mapsto> ''true'')\<rparr>
     in case getAnthropicClientForMCP s w2 of
         (Inl e, w3) \<Rightarrow>
           (failure ''AI_CLIENT_ERROR'' (''Cannot initialize AI client: '' @ exn_message e) None,
            log_error w3 (''Failed to initialize AI client: '' @ exn_message e))
       | (Inr aiClient, w3) \<Rightarrow>
           if \<not> truthyStr (projectRoot a)
             then (failure ''MISSING_PROJECT_ROOT'' ''Project root is required for parsePRDDirect'' None,
                   log_error w3 ''Project root is required for parsePRDDirect'')
           else if \<not> truthyStr (input_arg a)
             then (failure ''MISSING_INPUT_PATH'' ''Input file path is required for parsePRDDirect'' None,
                   log_error w3 ''Input file path is required for parsePRDDirect'')
           else if \<not> truthyStr (output_arg a)
             then (failure ''MISSING_OUTPUT_PATH'' ''Output file path is required for parsePRDDirect'' None,
                   log_error w3 ''Output file path is required for parsePRDDirect'')
           else parsePRDDirect_read a s w3)"

section \<open>Notions used in the statements\<close>

text \<open>
  The world of a call to \<open>parsePRDDirect\<close> once it has logged its arguments, set the
  flag and obtained its client.
\<close>

definition entered :: "args \<Rightarrow> world \<Rightarrow> world" where
  "entered a w =
    log_info ((log_info w (''Parsing PRD document with args: '' @ stringify_args w a))
               \<lparr>process_env := (process_env w)(''CLAUDE_DESKTOP'' \<mapsto> ''true'')\<rparr>)
      ''Using Claude Desktop mode with mock Anthropic client''"

text \<open>The warnings among the logged lines.\<close>

definition warnings :: "world \<Rightarrow> (level \<times> string) list" where
  "warnings w = filter (\<lambda>x. fst x = LogWarn) (logged w)"

text \<open>The warning that a \<^verbatim>\<open>numTasks\<close> argument draws once it is parsed, if any.\<close>

definition numTasksWarning :: "jsval \<Rightarrow> (level \<times> string) list" where
  "numTasksWarning v =
    (case v of
       JStr t \<Rightarrow>
         (if t \<noteq> [] \<and> parseInt t 10 = NaN
            then [(LogWarn, ''Invalid numTasks value: '' @ t @ ''. Using default: 10'')]
          else [])
     | _ \<Rightarrow> [])"

text \<open>
  The second world has the regular files of the first, with their contents, and its
  environment, working directory and date; directories and logged lines may have been
  added.
\<close>

definition keeps :: "world \<Rightarrow> world \<Rightarrow> bool" where
  "keeps w w' =
    ((\<forall>q c. (files w' q = Some (File c)) = (files w q = Some (File c)))
     \<and> process_env w' = process_env w \<and> workdir w' = workdir w \<and> today w' = today w)"

text \<open>The texts of the delta events of a stream, in order.\<close>

fun deltaTexts :: "event list \<Rightarrow> string list" where
  "deltaTexts [] = []"
| "deltaTexts (content_block_delta t i # es) = t # deltaTexts es"
| "deltaTexts (e # es) = deltaTexts es"

text \<open>
  A concrete call: a project at \<^verbatim>\<open>/p\<close> whose requirements document has 14 bytes, no tasks
  directory yet, and an empty process environment.
\<close>

definition example_world :: world where
  "example_world =
    \<lparr>process_env = Map.empty,
     files = [''/'' \<mapsto> Dir, ''/p'' \<mapsto> Dir, ''/p/scripts'' \<mapsto> Dir,
              ''/p/scripts/prd.txt'' \<mapsto> File ''Build a thing.''],
     logged = [], workdir = ''/cwd'', today = ''2025-01-01'',
     stringify_args = (\<lambda>a. ''{}''), stringify_output = (\<lambda>x. ''{}'')\<rparr>"

definition example_args :: args where
  "example_args =
    \<lparr>projectRoot = Some ''/p'', input_arg = Some ''scripts/prd.txt'',
     output_arg = Some ''tasks/tasks.json'', numTasks = JNum (Fin 5), append_arg = JUndefined\<rparr>"

definition example_context :: call_context where
  "example_context = \<lparr>context_session = None\<rparr>"

section \<open>Auxiliary facts\<close>

lemmas log_defs = log_info_def log_warn_def log_error_def

lemma entered_fields [simp]:
  "files (entered a w) = files w"
  "workdir (entered a w) = workdir w"
  "today (entered a w) = today w"
  "stringify_output (entered a w) = stringify_output w"
  "process_env (entered a w) = (process_env w)(''CLAUDE_DESKTOP'' \<mapsto> ''true'')"
  "logged (entered a w) = logged w @
     [(LogInfo, ''Parsing PRD document with args: '' @ stringify_args w a),
      (LogInfo, ''Using Claude Desktop mode with mock Anthropic client'')]"
  by (simp_all add: entered_def log_info_def)

lemma log_fields [simp]:
  "files (log_info w m) = files w" "files (log_warn w m) = files w" "files (log_error w m) = files w"
  "workdir (log_info w m) = workdir w" "workdir (log_warn w m) = workdir w" "workdir (log_error w m) = workdir w"
  "today (log_info w m) = today w" "today (log_warn w m) = today w" "today (log_error w m) = today w"
  "process_env (log_info w m) = process_env w" "process_env (log_warn w m) = process_env w"
  "process_env (log_error w m) = process_env w"
  "logged (log_info w m) = logged w @ [(LogInfo, m)]"
  "logged (log_warn w m) = logged w @ [(LogWarn, m)]"
  "logged (log_error w m) = logged w @ [(LogError, m)]"
  by (simp_all add: log_defs)

lemma getAnthropicClientForMCP_flag:
  "process_env w ''CLAUDE_DESKTOP'' = Some ''true'' \<Longrightarrow>
   getAnthropicClientForMCP s w =
     (Inr (MockAnthropicClient no_options),
      log_info w ''Using Claude Desktop mode with mock Anthropic client'')"
  by (simp add: getAnthropicClientForMCP_def usingClaudeDesktop_def)

lemma parsePRDDirect_entered:
  "parsePRDDirect a ctx w =
    (if \<not> truthyStr (projectRoot a)
       then (failure ''MISSING_PROJECT_ROOT'' ''Project root is required for parsePRDDirect'' None,
             log_error (entered a w) ''Project root is required for parsePRDDirect'')
     else if \<not> truthyStr (input_arg a)
       then (failure ''MISSING_INPUT_PATH'' ''Input file path is required for parsePRDDirect'' None,
             log_error (entered a w) ''Input file path is required for parsePRDDirect'')
     else if \<not> truthyStr (output_arg a)
       then (failure ''MISSING_OUTPUT_PATH'' ''Output file path is required for parsePRDDirect'' None,
             log_error (entered a w) ''Output file path is required for parsePRDDirect'')
     else parsePRDDirect_read a (context_session ctx) (entered a w))"
proof -
  let ?w2 = "(log_info w (''Parsing PRD document with args: '' @ stringify_args w a))
      \<lparr>process_env := (process_env (log_info w (''Parsing PRD document with args: '' @ stringify_args w a)))
         (''CLAUDE_DESKTOP'' \<mapsto> ''true'')\<rparr>"
  have flag: "process_env ?w2 ''CLAUDE_DESKTOP'' = Some ''true''"
    by simp
  have w3: "log_info ?w2 ''Using Claude Desktop mode with mock Anthropic client'' = entered a w"
    unfolding entered_def by (simp only: log_fields)
  show ?thesis
    unfolding parsePRDDirect_def Let_def getAnthropicClientForMCP_flag [OF flag] w3
    by (simp only: prod.case sum.case)
qed

lemma warnings_log [simp]:
  "warnings (log_info w m) = warnings w"
  "warnings (log_error w m) = warnings w"
  "warnings (log_warn w m) = warnings w @ [(LogWarn, m)]"
  "warnings (entered a w) = warnings w"
  "warnings (w\<lparr>files := f\<rparr>) = warnings w"
  by (simp_all add: warnings_def)

lemma mkdir_fold_keeps_files:
  "(foldr (\<lambda>d m. if m d = None then m(d \<mapsto> Dir) else m) ds fs q = Some (File c))
     = (fs q = Some (File c))"
  by (induction ds) auto

lemma mkdirSync_recursive_keeps_files:
  "mkdirSync_recursive fs p = Inr fs' \<Longrightarrow> (fs' q = Some (File c)) = (fs q = Some (File c))"
  by (auto simp: mkdirSync_recursive_def Let_def mkdir_fold_keeps_files split: if_splits)

lemma ensureOutputDir_frame:
  assumes "ensureOutputDir d w = (r, w')"
  shows "(files w' q = Some (File c)) = (files w q = Some (File c))"
    and "process_env w' = process_env w" and "workdir w' = workdir w" and "today w' = today w"
    and "warnings w' = warnings w"
  using assms
  by (auto simp: ensureOutputDir_def Let_def mkdirSync_recursive_keeps_files
      split: if_splits sum.splits)

lemma truthy_not_NaN: "truthy v \<Longrightarrow> isNaN v \<Longrightarrow> \<exists>t. v = JStr t"
  by (cases v) (auto simp: truthy_def isNaN_def ToNumber_def split: jsnum.splits)

lemma isNaN_JNum [simp]: "isNaN (JNum x) = (x = NaN)"
  by (simp add: isNaN_def ToNumber_def split: jsnum.splits)

lemma parseNumTasks_eq:
  "parseNumTasks v w =
    (case v of
       JStr t \<Rightarrow>
         (if t = [] then (JNum (Fin 10), w)
          else if parseInt t 10 = NaN
            then (JNum (Fin 10), log_warn w (''Invalid numTasks value: '' @ t @ ''. Using default: 10''))
          else (JNum (parseInt t 10), w))
     | _ \<Rightarrow> (if truthy v then (v, w) else (JNum (Fin 10), w)))"
  by (cases v) (auto simp: parseNumTasks_def truthy_def isNaN_def ToNumber_def ToString_def
      split: jsnum.splits)

lemma parseNumTasks_world:
  "snd (parseNumTasks v w) = w \<or> (\<exists>m. snd (parseNumTasks v w) = log_warn w m)"
  by (auto simp: parseNumTasks_eq split: jsval.splits)

lemma parseNumTasks_value: "fst (parseNumTasks v w) = fst (parseNumTasks v w')"
  by (simp add: parseNumTasks_eq split: jsval.splits)

lemma parseNumTasks_frame:
  assumes "parseNumTasks v w = (n, w')"
  shows "files w' = files w" and "process_env w' = process_env w" and "workdir w' = workdir w"
    and "today w' = today w"
  using assms parseNumTasks_world [of v w] by auto

lemma resolveArg_cong: "workdir w1 = workdir w2 \<Longrightarrow> resolveArg w1 = resolveArg w2"
  by (simp add: resolveArg_def fun_eq_iff)

lemma parsePRDDirect_generate_eq:
  "parsePRDDirect_generate a s rootDir inputPath doc w3 =
    (case ensureOutputDir (dirname (resolveArg w3 rootDir (str (output_arg a))))
            (log_info w3 (''Read '' @ decimal (length doc) @ '' bytes from '' @ inputPath)) of
       (Inl e, w5) \<Rightarrow> catchAll e w5
     | (Inr u, w5) \<Rightarrow>
         (case parseNumTasks (numTasks a) w5 of
            (n, w6) \<Rightarrow>
              (\<lparr>success = True,
                data = Some (Delegated
                  \<lparr>data_message = ''PRD parsing should be handled directly by Claude'',
                   data_shouldBeHandledByClaudeDirectly = True,
                   data_systemPrompt = systemPromptText n inputPath (today w6),
                   data_userPrompt =
                     ''Here's the Product Requirements Document (PRD) to break down into ''
                     @ ToString n @ '' tasks:\<newline>\<newline>'' @ doc,
                   data_outputPath = resolveArg w3 rootDir (str (output_arg a)),
                   data_numTasks = n,
                   data_append = truthy (append_arg a)\<rparr>),
                error = None, fromCache = False\<rparr>,
               log_info
                 (log_info
                   (log_info w6 (''Preparing to parse PRD from '' @ inputPath
                      @ '' and output to '' @ resolveArg w3 rootDir (str (output_arg a))
                      @ '' with '' @ ToString n @ '' tasks, append mode: ''
                      @ (if truthy (append_arg a) then ''true'' else ''false'')))
                   (''Generating '' @ ToString n @ '' tasks from PRD at '' @ inputPath))
                 ''Claude is analyzing the PRD and generating tasks...'')))"
proof -
  have r: "resolveArg (log_info w3 m) = resolveArg w3" for m
    by (rule resolveArg_cong) simp
  show ?thesis
    unfolding parsePRDDirect_generate_def Let_def generateTasksFromPRD_def r
    by (simp only: prod.case generation.simps if_True log_fields split: sum.splits prod.splits)
qed

lemma keeps_refl [simp]: "keeps w w"
  by (simp add: keeps_def)

lemma keeps_trans: "keeps w1 w2 \<Longrightarrow> keeps w2 w3 \<Longrightarrow> keeps w1 w3"
  by (simp add: keeps_def)

lemma keeps_log [simp]:
  "keeps w (log_info w m)" "keeps w (log_warn w m)" "keeps w (log_error w m)"
  by (simp_all add: keeps_def)

lemma keeps_log_right [simp]:
  "keeps w (log_info w' m) = keeps w w'" "keeps w (log_warn w' m) = keeps w w'"
  "keeps w (log_error w' m) = keeps w w'"
  by (simp_all add: keeps_def)

lemma ensureOutputDir_keeps: "ensureOutputDir d w = (r, w') \<Longrightarrow> keeps w w'"
  unfolding keeps_def using ensureOutputDir_frame [of d w r w'] by blast

lemma parseNumTasks_keeps: "parseNumTasks v w = (n, w') \<Longrightarrow> keeps w w'"
  using parseNumTasks_world [of v w] by auto

lemma catchAll_keeps: "catchAll e w = (r, w') \<Longrightarrow> keeps w w'"
  by (auto simp: catchAll_def)

lemma catchAll_fails: "catchAll e w = (r, w') \<Longrightarrow> \<not> success r"
  by (auto simp: catchAll_def failure_def)

lemma parsePRDDirect_generate_keeps:
  assumes "parsePRDDirect_generate a s rootDir inputPath doc w3 = (e, w')"
  shows "keeps w3 w'"
proof (cases "ensureOutputDir (dirname (resolveArg w3 rootDir (str (output_arg a))))
            (log_info w3 (''Read '' @ decimal (length doc) @ '' bytes from '' @ inputPath))")
  case (Pair r w5)
  then have k5: "keeps w3 w5"
    using ensureOutputDir_keeps [OF Pair] by (simp add: keeps_def)
  show ?thesis
  proof (cases r)
    case (Inl x)
    with Pair assms have "catchAll x w5 = (e, w')"
      by (simp add: parsePRDDirect_generate_eq)
    then show ?thesis using k5 catchAll_keeps keeps_trans by blast
  next
    case (Inr u)
    obtain n w6 where n: "parseNumTasks (numTasks a) w5 = (n, w6)"
      by (cases "parseNumTasks (numTasks a) w5")
    then have "keeps w5 w6" by (rule parseNumTasks_keeps)
    with k5 have "keeps w3 w6" by (rule keeps_trans)
    moreover from Pair Inr n assms have "\<exists>m1 m2 m3. w' = log_info (log_info (log_info w6 m1) m2) m3"
      by (auto simp: parsePRDDirect_generate_eq)
    ultimately show ?thesis by auto
  qed
qed

lemma existsSync_entered [simp]: "existsSync (files (entered a w)) = existsSync (files w)"
  by (simp add: existsSync_def fun_eq_iff)

lemma parsePRDDirect_read_keeps:
  assumes "parsePRDDirect_read a s w3 = (e, w')"
  shows "keeps w3 w'"
  using assms
  by (auto simp: parsePRDDirect_read_def Let_def split: if_splits sum.splits
      dest: catchAll_keeps parsePRDDirect_generate_keeps)

lemma keeps_entered: "keeps (entered a w) w' \<Longrightarrow>
  (\<forall>q c. (files w' q = Some (File c)) = (files w q = Some (File c)))
  \<and> process_env w' = (process_env w)(''CLAUDE_DESKTOP'' \<mapsto> ''true'')
  \<and> workdir w' = workdir w \<and> today w' = today w"
  by (simp add: keeps_def)

lemma parsePRDDirect_effect:
  assumes "parsePRDDirect a ctx w = (e, w')"
  shows "keeps (entered a w) w'"
  using assms
  by (auto simp: parsePRDDirect_entered split: if_splits dest: parsePRDDirect_read_keeps)

lemma ensureOutputDir_result:
  "fst (ensureOutputDir d w) =
    (if existsSync (files w) d then Inr ()
     else (case mkdirSync_recursive (files w) d of Inl e \<Rightarrow> Inl e | Inr fs' \<Rightarrow> Inr ()))"
  by (simp add: ensureOutputDir_def Let_def split: sum.splits)

lemma catchAll_envelope:
  "fst (catchAll e w) =
     failure ''PARSE_PRD_ERROR''
       (if exn_message e \<noteq> [] then exn_message e else ''Unknown error parsing PRD'') None"
  by (simp add: catchAll_def)

text \<open>The envelope as a function of the arguments and of what the call reads.\<close>

lemma parsePRDDirect_generate_envelope:
  "fst (parsePRDDirect_generate a s rootDir inputPath doc w3) =
    (case fst (ensureOutputDir (dirname (resolveArg w3 rootDir (str (output_arg a)))) w3) of
       Inl e \<Rightarrow> fst (catchAll e w3)
     | Inr u \<Rightarrow>
         \<lparr>success = True,
          data = Some (Delegated
            \<lparr>data_message = ''PRD parsing should be handled directly by Claude'',
             data_shouldBeHandledByClaudeDirectly = True,
             data_systemPrompt =
               systemPromptText (fst (parseNumTasks (numTasks a) w3)) inputPath (today w3),
             data_userPrompt =
               ''Here's the Product Requirements Document (PRD) to break down into ''
               @ ToString (fst (parseNumTasks (numTasks a) w3)) @ '' tasks:\<newline>\<newline>'' @ doc,
             data_outputPath = resolveArg w3 rootDir (str (output_arg a)),
             data_numTasks = fst (parseNumTasks (numTasks a) w3),
             data_append = truthy (append_arg a)\<rparr>),
          error = None, fromCache = False\<rparr>)"
proof -
  let ?w4 = "log_info w3 (''Read '' @ decimal (length doc) @ '' bytes from '' @ inputPath)"
  let ?d = "dirname (resolveArg w3 rootDir (str (output_arg a)))"
  obtain r w5 where p: "ensureOutputDir ?d ?w4 = (r, w5)"
    by (cases "ensureOutputDir ?d ?w4")
  have "fst (ensureOutputDir ?d w3) = fst (ensureOutputDir ?d ?w4)"
    by (simp add: ensureOutputDir_result)
  then have r: "fst (ensureOutputDir ?d w3) = r"
    using p by simp
  have t: "today w5 = today w3"
    using ensureOutputDir_frame(4) [OF p] by simp
  obtain n w6 where n: "parseNumTasks (numTasks a) w5 = (n, w6)"
    by (cases "parseNumTasks (numTasks a) w5")
  have n3: "fst (parseNumTasks (numTasks a) w3) = n"
    using n parseNumTasks_value [of "numTasks a" w3 w5] by simp
  have t6: "today w6 = today w3"
    using parseNumTasks_frame(4) [OF n] t by simp
  show ?thesis
  proof (cases r)
    case (Inl x)
    show ?thesis
      unfolding parsePRDDirect_generate_eq p r Inl by (simp add: catchAll_envelope)
  next
    case (Inr u)
    show ?thesis
      unfolding parsePRDDirect_generate_eq p r Inr by (simp add: n n3 t6)
  qed
qed

lemma parsePRDDirect_read_envelope:
  "fst (parsePRDDirect_read a s w3) =
    (if \<not> existsSync (files w3) (resolveArg w3 (str (projectRoot a)) (str (input_arg a)))
       then failure ''INPUT_FILE_NOT_FOUND''
              (''Input file not found: '' @ resolveArg w3 (str (projectRoot a)) (str (input_arg a)))
              (Some (''Checked path: '' @ resolveArg w3 (str (projectRoot a)) (str (input_arg a))
                     @ ''\<newline>Project root: '' @ str (projectRoot a)
                     @ ''\<newline>Input argument: '' @ str (input_arg a)))
     else
       (case readFileSync (files w3) (resolveArg w3 (str (projectRoot a)) (str (input_arg a))) of
          Inl e \<Rightarrow> fst (catchAll e w3)
        | Inr doc \<Rightarrow>
            fst (parsePRDDirect_generate a s (str (projectRoot a))
                   (resolveArg w3 (str (projectRoot a)) (str (input_arg a))) doc w3)))"
  by (simp add: parsePRDDirect_read_def Let_def split: sum.splits)

lemma ensureOutputDir_files_cong:
  "files w = files w' \<Longrightarrow> fst (ensureOutputDir d w) = fst (ensureOutputDir d w')"
  by (simp add: ensureOutputDir_result)

lemma parsePRDDirect_generate_envelope_cong:
  assumes "files w = files w'" "workdir w = workdir w'" "today w = today w'"
  shows "fst (parsePRDDirect_generate a s r i doc w) = fst (parsePRDDirect_generate a s r i doc w')"
proof -
  have 1: "resolveArg w = resolveArg w'"
    using assms(2) by (rule resolveArg_cong)
  have 2: "fst (parseNumTasks (numTasks a) w) = fst (parseNumTasks (numTasks a) w')"
    by (rule parseNumTasks_value)
  have 3: "fst (ensureOutputDir d w) = fst (ensureOutputDir d w')" for d
    using assms(1) by (rule ensureOutputDir_files_cong)
  show ?thesis
    unfolding parsePRDDirect_generate_envelope catchAll_envelope 1 2 3 assms(3) by (rule refl)
qed

lemma parsePRDDirect_read_envelope_cong:
  assumes "files w = files w'" "workdir w = workdir w'" "today w = today w'"
  shows "fst (parsePRDDirect_read a s w) = fst (parsePRDDirect_read a s w')"
proof -
  have 1: "resolveArg w = resolveArg w'"
    using assms(2) by (rule resolveArg_cong)
  have 2: "fst (parsePRDDirect_generate a s r i doc w) = fst (parsePRDDirect_generate a s r i doc w')"
    for r i doc
    using assms by (rule parsePRDDirect_generate_envelope_cong)
  show ?thesis
    unfolding parsePRDDirect_read_envelope catchAll_envelope 1 2 assms(1) by (rule refl)
qed

lemma parsePRDDirect_envelope:
  "fst (parsePRDDirect a ctx w) =
    (if \<not> truthyStr (projectRoot a)
       then failure ''MISSING_PROJECT_ROOT'' ''Project root is required for parsePRDDirect'' None
     else if \<not> truthyStr (input_arg a)
       then failure ''MISSING_INPUT_PATH'' ''Input file path is required for parsePRDDirect'' None
     else if \<not> truthyStr (output_arg a)
       then failure ''MISSING_OUTPUT_PATH'' ''Output file path is required for parsePRDDirect'' None
     else fst (parsePRDDirect_read a (context_session ctx) w))"
  using parsePRDDirect_read_envelope_cong [of "entered a w" w a "context_session ctx"]
  by (simp add: parsePRDDirect_entered)

lemma example_paths:
  "resolveArg example_world ''/p'' ''scripts/prd.txt'' = ''/p/scripts/prd.txt''"
  "resolveArg example_world ''/p'' ''tasks/tasks.json'' = ''/p/tasks/tasks.json''"
  "dirname ''/p/tasks/tasks.json'' = ''/p/tasks''"
  by (simp_all add: resolveArg_def isAbsolute_def path_resolve_def example_world_def dirname_def)

lemma example_mkdir:
  "\<exists>fs'. mkdirSync_recursive (files example_world) ''/p/tasks'' = Inr fs'"
  by (simp add: mkdirSync_recursive_def example_world_def dirname_def numeral_eq_Suc)

lemma isAbsolute_Cons: "isAbsolute p = (\<exists>cs. p = CHR ''/'' # cs)"
  by (cases p) (auto simp: isAbsolute_def)

lemma isAbsolute_resolveLoop:
  "isAbsolute d \<Longrightarrow> isAbsolute (resolveLoop (ps @ [d]) acc)"
  by (induction ps arbitrary: acc) (auto simp: isAbsolute_Cons)

lemma isAbsolute_path_resolve: "isAbsolute d \<Longrightarrow> isAbsolute (path_resolve d ps)"
  using isAbsolute_resolveLoop [of d "rev ps" "[]"]
  by (simp add: path_resolve_def Let_def) (simp add: isAbsolute_Cons)

lemma truthyStr_Some: "truthyStr v = (\<exists>t. v = Some t \<and> t \<noteq> [])"
  by (cases v) (auto simp: truthyStr_def)

lemma failure_not_success [simp]: "\<not> success (failure c m d)"
  by (simp add: failure_def)

lemma readFileSync_eq:
  "readFileSync fs p = Inr doc \<longleftrightarrow> fs p = Some (File doc)"
  by (auto simp: readFileSync_def split: option.splits node.splits)

lemma parsePRDDirect_success:
  assumes "success (fst (parsePRDDirect a ctx w))"
  shows "\<exists>r i out doc.
    projectRoot a = Some r \<and> r \<noteq> [] \<and> input_arg a = Some i \<and> i \<noteq> [] \<and>
    output_arg a = Some out \<and> out \<noteq> [] \<and>
    files w (resolveArg w r i) = Some (File doc) \<and>
    fst (ensureOutputDir (dirname (resolveArg w r out)) w) = Inr () \<and>
    fst (parsePRDDirect a ctx w) =
      \<lparr>success = True,
       data = Some (Delegated
         \<lparr>data_message = ''PRD parsing should be handled directly by Claude'',
          data_shouldBeHandledByClaudeDirectly = True,
          data_systemPrompt =
            systemPromptText (fst (parseNumTasks (numTasks a) w)) (resolveArg w r i) (today w),
          data_userPrompt =
            ''Here's the Product Requirements Document (PRD) to break down into ''
            @ ToString (fst (parseNumTasks (numTasks a) w)) @ '' tasks:\<newline>\<newline>'' @ doc,
          data_outputPath = resolveArg w r out,
          data_numTasks = fst (parseNumTasks (numTasks a) w),
          data_append = truthy (append_arg a)\<rparr>),
       error = None, fromCache = False\<rparr>"
proof -
  from assms obtain r i out where a: "projectRoot a = Some r" "r \<noteq> []" "input_arg a = Some i" "i \<noteq> []"
      "output_arg a = Some out" "out \<noteq> []"
    by (auto simp: parsePRDDirect_envelope truthyStr_Some split: if_splits)
  then have t: "truthyStr (projectRoot a)" "truthyStr (input_arg a)" "truthyStr (output_arg a)"
    by (simp_all add: truthyStr_def)
  have s: "str (projectRoot a) = r" "str (input_arg a) = i" "str (output_arg a) = out"
    using a by (simp_all add: str_def)
  have rd: "success (fst (parsePRDDirect_read a (context_session ctx) w))"
    using assms t by (simp add: parsePRDDirect_envelope)
  then obtain doc where doc: "readFileSync (files w) (resolveArg w r i) = Inr doc"
    by (auto simp: parsePRDDirect_read_envelope s catchAll_envelope split: if_splits sum.splits)
  then have ex: "existsSync (files w) (resolveArg w r i)"
    by (auto simp: existsSync_def readFileSync_eq)
  have g: "fst (parsePRDDirect a ctx w) =
      fst (parsePRDDirect_generate a (context_session ctx) r (resolveArg w r i) doc w)"
    using t doc ex by (simp add: parsePRDDirect_envelope parsePRDDirect_read_envelope s)
  with assms have "success (fst (parsePRDDirect_generate a (context_session ctx) r (resolveArg w r i) doc w))"
    by simp
  then have d: "fst (ensureOutputDir (dirname (resolveArg w r out)) w) = Inr ()"
    by (auto simp: parsePRDDirect_generate_envelope s catchAll_envelope split: sum.splits)
  have "files w (resolveArg w r i) = Some (File doc)"
    using doc by (simp add: readFileSync_eq)
  moreover have "fst (parsePRDDirect a ctx w) =
      \<lparr>success = True,
       data = Some (Delegated
         \<lparr>data_message = ''PRD parsing should be handled directly by Claude'',
          data_shouldBeHandledByClaudeDirectly = True,
          data_systemPrompt =
            systemPromptText (fst (parseNumTasks (numTasks a) w)) (resolveArg w r i) (today w),
          data_userPrompt =
            ''Here's the Product Requirements Document (PRD) to break down into ''
            @ ToString (fst (parseNumTasks (numTasks a) w)) @ '' tasks:\<newline>\<newline>'' @ doc,
          data_outputPath = resolveArg w r out,
          data_numTasks = fst (parseNumTasks (numTasks a) w),
          data_append = truthy (append_arg a)\<rparr>),
       error = None, fromCache = False\<rparr>"
    unfolding g parsePRDDirect_generate_envelope s d by simp
  ultimately show ?thesis
    using a d by blast
qed

text \<open>\<^verbatim>\<open>parseInt\<close> reads a number back from its own text.\<close>

lemma digitValue_digitChar: "d < 10 \<Longrightarrow> digitValue (digitChar d) = Some d"
  by (auto simp: digitChar_def digitValue_def)

lemma isRadixDigit_digitChar: "d < 10 \<Longrightarrow> isRadixDigit 10 (digitChar d)"
  by (simp add: isRadixDigit_def digitValue_digitChar)

lemma digitChar_plain:
  "d < 10 \<Longrightarrow> \<not> isWhiteSpace (digitChar d) \<and> digitChar d \<noteq> CHR ''+'' \<and> digitChar d \<noteq> CHR ''-''
     \<and> digitChar d \<noteq> CHR ''x'' \<and> digitChar d \<noteq> CHR ''X''"
  by (auto simp: digitChar_def isWhiteSpace_def)

lemma decimal_digits: "c \<in> set (decimal n) \<Longrightarrow> \<exists>d<10. c = digitChar d"
proof (induction n rule: decimal.induct)
  case (1 n)
  show ?case
  proof (cases "n < 10")
    case True
    with 1(2) show ?thesis by (subst (asm) decimal.simps) auto
  next
    case False
    have m: "n mod 10 < 10" by simp
    from 1(2) False have "c \<in> set (decimal (n div 10)) \<or> c = digitChar (n mod 10)"
      by (subst (asm) decimal.simps) auto
    with 1(1) False m show ?thesis by blast
  qed
qed

lemma decimal_nonempty: "decimal n \<noteq> []"
  by (subst decimal.simps) simp

lemma digitsValue_snoc:
  "digitsValue R (Z @ [c]) = digitsValue R Z * R + (case digitValue c of None \<Rightarrow> 0 | Some d \<Rightarrow> d)"
  by (simp add: digitsValue_def)

lemma digitsValue_decimal: "digitsValue 10 (decimal n) = n"
proof (induction n rule: decimal.induct)
  case (1 n)
  show ?case
  proof (cases "n < 10")
    case True
    then show ?thesis
      by (subst decimal.simps) (simp add: digitsValue_def digitValue_digitChar)
  next
    case False
    have "n mod 10 < 10" by simp
    with False 1 show ?thesis
      by (subst decimal.simps) (simp add: digitsValue_snoc digitValue_digitChar)
  qed
qed

lemma takeWhile_decimal: "takeWhile (isRadixDigit 10) (decimal n) = decimal n"
proof -
  have "\<forall>c \<in> set (decimal n). isRadixDigit 10 c"
    using decimal_digits [of _ n] isRadixDigit_digitChar by blast
  then show ?thesis by (simp add: takeWhile_eq_all_conv)
qed

lemma decimal_shape:
  "\<not> isWhiteSpace (hd (decimal n)) \<and> hd (decimal n) \<noteq> CHR ''+'' \<and> hd (decimal n) \<noteq> CHR ''-''
     \<and> take 2 (decimal n) \<noteq> ''0x'' \<and> take 2 (decimal n) \<noteq> ''0X''"
proof -
  obtain c cs where d: "decimal n = c # cs"
    using decimal_nonempty [of n] by (cases "decimal n") auto
  have "\<exists>d<10. c = digitChar d"
    using decimal_digits [of c n] d by simp
  then have c: "\<not> isWhiteSpace c \<and> c \<noteq> CHR ''+'' \<and> c \<noteq> CHR ''-''"
    using digitChar_plain by auto
  have "take 2 (c # cs) \<noteq> ''0x'' \<and> take 2 (c # cs) \<noteq> ''0X''"
  proof (cases cs)
    case Nil
    then show ?thesis by simp
  next
    case (Cons c' cs')
    then have "\<exists>d<10. c' = digitChar d"
      using decimal_digits [of c' n] d by simp
    then have "c' \<noteq> CHR ''x'' \<and> c' \<noteq> CHR ''X''"
      using digitChar_plain by auto
    with Cons show ?thesis by simp
  qed
  with d c show ?thesis by simp
qed

lemma parseInt_plain:
  assumes "S \<noteq> []" and "\<not> isWhiteSpace (hd S)" and "hd S \<noteq> CHR ''+''" and "hd S \<noteq> CHR ''-''"
    and "take 2 S \<noteq> ''0x''" and "take 2 S \<noteq> ''0X''" and "takeWhile (isRadixDigit 10) S = S"
  shows "parseInt S 0 = toDouble (int (digitsValue 10 S))"
    and "parseInt (CHR ''-'' # S) 0 = toDouble (- int (digitsValue 10 S))"
proof -
  have a: "dropWhile isWhiteSpace S = S"
    using assms(1,2) by (cases S) auto
  have b: "take 1 S \<noteq> ''-''" "take 1 S \<noteq> ''+''"
    using assms(1,3,4) by (cases S; simp)+
  show "parseInt S 0 = toDouble (int (digitsValue 10 S))"
    using a b assms(1,5,6) by (simp add: parseInt_def Let_def assms(7))
  have w: "\<not> isWhiteSpace CHR ''-''"
    by (simp add: isWhiteSpace_def)
  show "parseInt (CHR ''-'' # S) 0 = toDouble (- int (digitsValue 10 S))"
    using w assms(1,5,6) by (simp add: parseInt_def Let_def assms(7))
qed

lemma parseInt_NaN_text: "parseInt ''NaN'' 0 = NaN"
  by (simp add: parseInt_def isWhiteSpace_def isRadixDigit_def digitValue_def)

lemma parseInt_decimal:
  "parseInt (decimal n) 0 = toDouble (int n)"
  "parseInt (CHR ''-'' # decimal n) 0 = toDouble (- int n)"
proof -
  have s: "\<not> isWhiteSpace (hd (decimal n))" "hd (decimal n) \<noteq> CHR ''+''" "hd (decimal n) \<noteq> CHR ''-''"
      "take 2 (decimal n) \<noteq> ''0x''" "take 2 (decimal n) \<noteq> ''0X''"
    using decimal_shape [of n] by blast+
  note p = parseInt_plain [OF decimal_nonempty s takeWhile_decimal]
  show "parseInt (decimal n) 0 = toDouble (int n)"
    using p(1) by (simp only: digitsValue_decimal)
  show "parseInt (CHR ''-'' # decimal n) 0 = toDouble (- int n)"
    using p(2) by (simp only: digitsValue_decimal)
qed

text \<open>
  Rounding to a double leaves an integer below \<open>2\<^sup>5\<^sup>3\<close> as it is, and such an integer is
  printed in plain decimal.
\<close>

lemma bitLength_bounds: "0 < n \<Longrightarrow> 2 ^ (bitLength n - 1) \<le> n \<and> n < 2 ^ bitLength n"
proof (induction n rule: bitLength.induct)
  case (1 n)
  show ?case
  proof (cases "n div 2 = 0")
    case True
    with 1(2) have "n = 1" by (auto simp: div_eq_0_iff)
    then show ?thesis by (simp add: bitLength.simps)
  next
    case False
    with 1 have ih: "2 ^ (bitLength (n div 2) - 1) \<le> n div 2 \<and> n div 2 < 2 ^ bitLength (n div 2)"
      by simp
    from False have pos: "0 < bitLength (n div 2)"
      by (subst bitLength.simps) simp
    have b: "bitLength n = Suc (bitLength (n div 2))"
      using 1(2) by (subst bitLength.simps) simp
    from pos have "2 ^ bitLength (n div 2) = 2 * (2::nat) ^ (bitLength (n div 2) - 1)"
      by (cases "bitLength (n div 2)") simp_all
    with ih have "2 ^ bitLength (n div 2) \<le> 2 * (n div 2)" by simp
    also have "\<dots> \<le> n" by simp
    finally have lower: "2 ^ (bitLength n - 1) \<le> n" by (simp add: b)
    from ih have "n div 2 + 1 \<le> 2 ^ bitLength (n div 2)" by simp
    then have "2 * (n div 2 + 1) \<le> 2 * 2 ^ bitLength (n div 2)" by simp
    moreover have "n < 2 * (n div 2 + 1)" by arith
    ultimately have "n < 2 ^ bitLength n" by (simp add: b)
    with lower show ?thesis by simp
  qed
qed

lemma roundToDouble_small: "n < 2 ^ 53 \<Longrightarrow> roundToDouble n = n"
  by (simp add: roundToDouble_def)

lemma roundToDouble_large:
  assumes "2 ^ 53 \<le> n"
  shows "2 ^ 53 \<le> roundToDouble n"
proof -
  from assms have pos: "0 < n"
    by (metis gr0I not_less zero_less_numeral zero_less_power)
  define e where "e = bitLength n - 53"
  from bitLength_bounds [OF pos] have bb: "2 ^ (bitLength n - 1) \<le> n" "n < 2 ^ bitLength n"
    by simp_all
  have "(2::nat) ^ 53 < 2 ^ bitLength n"
    using assms bb(2) by simp
  then have len: "53 < bitLength n"
    using power_less_imp_less_exp [of 2 53 "bitLength n"] by simp
  then have e: "0 < e" "bitLength n - 1 = 52 + e"
    by (simp_all add: e_def)
  have "(2::nat) ^ 52 * 2 ^ e \<le> n"
    using bb(1) e(2) by (simp add: power_add)
  then have q: "2 ^ 52 \<le> n div 2 ^ e"
    by (simp add: less_eq_div_iff_mult_less_eq)
  have "(2::nat) ^ 53 \<le> 2 ^ 52 * 2 ^ e"
    using e(1) by (cases e) simp_all
  also have "\<dots> \<le> (n div 2 ^ e) * 2 ^ e"
    using q by simp
  also have "\<dots> \<le> roundToDouble n"
    using assms by (simp add: roundToDouble_def Let_def e_def)
  finally show ?thesis .
qed

lemma roundsTo_small: "x < 2 ^ 53 \<Longrightarrow> roundsTo x v = (v = x)"
proof (cases "v < 2 ^ 53")
  case True
  then show ?thesis by (simp add: roundsTo_def roundToDouble_small)
next
  case False
  assume x: "x < 2 ^ 53"
  from False have "2 ^ 53 \<le> v" by simp
  then have "2 ^ 53 \<le> roundToDouble v"
    by (rule roundToDouble_large)
  with x False show ?thesis by (auto simp: roundsTo_def)
qed

lemma pickDigits_small: "x < 2 ^ 53 \<Longrightarrow> pickDigits x p = Some v \<Longrightarrow> v = x"
  by (auto simp: pickDigits_def Let_def roundsTo_small split: if_splits)

lemma shortestRoundTrip_small:
  assumes "x < 2 ^ 53"
  shows "shortestRoundTrip x p = x"
proof -
  have pd: "pickDigits x q = Some v \<Longrightarrow> v = x" for q v
    using assms by (rule pickDigits_small)
  show ?thesis
    by (induction p) (auto split: option.splits dest: pd)
qed

lemma decimal_length: "0 < k \<Longrightarrow> n < 10 ^ k \<Longrightarrow> length (decimal n) \<le> k"
proof (induction n arbitrary: k rule: decimal.induct)
  case (1 n)
  show ?case
  proof (cases "n < 10")
    case True
    with 1(2) show ?thesis by (subst decimal.simps) simp
  next
    case False
    from 1(2,3) False obtain j where k: "k = Suc j" "0 < j"
      by (cases k; cases "k - 1") auto
    with 1(3) have "n div 10 < 10 ^ j"
      by (simp add: less_mult_imp_div_less mult.commute)
    with 1(1) [OF False k(2)] have "length (decimal (n div 10)) \<le> j" .
    with False k show ?thesis by (subst decimal.simps) simp
  qed
qed

lemma NumberToString_small:
  assumes "\<bar>i\<bar> < 2 ^ 53"
  shows "NumberToString (Fin i) =
           (if i < 0 then CHR ''-'' # decimal (nat (- i)) else decimal (nat i))"
proof -
  let ?x = "nat \<bar>i\<bar>"
  from assms have x: "?x < 2 ^ 53"
    by (simp add: nat_less_iff)
  have "(2::nat) ^ 53 < 10 ^ 21" by simp
  with x have "?x < 10 ^ 21" by (rule less_trans)
  then have l: "length (decimal ?x) \<le> 21"
    by (rule decimal_length [rotated]) simp
  have s: "shortestRoundTrip ?x p = ?x" for p
    using x by (rule shortestRoundTrip_small)
  have a: "i < 0 \<Longrightarrow> nat (- i) = ?x" "\<not> i < 0 \<Longrightarrow> nat i = ?x"
    by simp_all
  show ?thesis
    unfolding NumberToString_def jsnum.case Let_def s using l a by (simp only: if_True split: if_splits) auto
qed

lemma toDouble_small: "\<bar>i\<bar> < 2 ^ 53 \<Longrightarrow> toDouble i = Fin i"
proof -
  assume a: "\<bar>i\<bar> < 2 ^ 53"
  then have x: "nat \<bar>i\<bar> < 2 ^ 53"
    by (simp add: nat_less_iff)
  have "(2::nat) ^ 53 < 2 ^ 1024" by simp
  with x have "\<not> (2::nat) ^ 1024 \<le> nat \<bar>i\<bar>" by simp
  with x show ?thesis
    by (simp add: toDouble_def roundToDouble_small Let_def)
qed

text \<open>
  So \<^verbatim>\<open>parseInt\<close> reads \<^verbatim>\<open>NaN\<close> and an integer below \<open>2\<^sup>5\<^sup>3\<close> back from its own text.
\<close>

lemma parseInt_NumberToString:
  assumes "x = NaN \<or> (\<exists>i. x = Fin i \<and> \<bar>i\<bar> < 2 ^ 53)"
  shows "parseInt (NumberToString x) 0 = x"
proof (cases x)
  case NaN
  then show ?thesis
    by (simp add: NumberToString_def parseInt_NaN_text)
next
  case (Infty b)
  with assms show ?thesis by simp
next
  case (Fin i)
  with assms have small: "\<bar>i\<bar> < 2 ^ 53" by simp
  show ?thesis
  proof (cases "i < 0")
    case True
    then have "NumberToString x = CHR ''-'' # decimal (nat (- i))"
      using Fin small by (simp only: NumberToString_small if_True)
    moreover have "toDouble (- int (nat (- i))) = x"
      using True Fin small by (simp add: toDouble_small)
    ultimately show ?thesis
      by (simp only: parseInt_decimal)
  next
    case False
    then have "NumberToString x = decimal (nat i)"
      using Fin small by (simp only: NumberToString_small if_False)
    moreover have "toDouble (int (nat i)) = x"
      using False Fin small by (simp add: toDouble_small)
    ultimately show ?thesis
      by (simp only: parseInt_decimal)
  qed
qed

text \<open>
  The number \<open>10\<^sup>2\<^sup>1\<close> is a double, is printed with an exponent, and \<^verbatim>\<open>parseInt\<close> reads only
  the digit before the \<^verbatim>\<open>e\<close>; \<^verbatim>\<open>parseInt\<close> reads no number in the text of an infinity.
\<close>

lemma bitLength_eq:
  assumes "2 ^ k \<le> n" and "n < 2 ^ Suc k"
  shows "bitLength n = Suc k"
proof -
  from assms(1) have pos: "0 < n"
    by (metis gr0I not_less zero_less_numeral zero_less_power)
  from bitLength_bounds [OF pos] have bb: "2 ^ (bitLength n - 1) \<le> n" "n < 2 ^ bitLength n"
    by simp_all
  have "(2::nat) ^ k < 2 ^ bitLength n"
    using assms(1) bb(2) by (rule le_less_trans)
  then have a: "k < bitLength n"
    by (rule power_less_imp_less_exp [rotated]) simp
  have "(2::nat) ^ (bitLength n - 1) < 2 ^ Suc k"
    using bb(1) assms(2) by (rule le_less_trans)
  then have "bitLength n - 1 < Suc k"
    by (rule power_less_imp_less_exp [rotated]) simp
  with a show ?thesis by simp
qed

lemma pickDigits_exact:
  assumes "roundsTo x x" and "10 ^ p dvd x"
  shows "pickDigits x p = Some x"
proof -
  from assms(2) have lo: "(x div 10 ^ p) * 10 ^ p = x"
    by simp
  show ?thesis
    unfolding pickDigits_def Let_def lo using assms(1) by simp
qed

lemma shortestRoundTrip_pick: "pickDigits x p = Some v \<Longrightarrow> shortestRoundTrip x p = v"
  by (cases p) simp_all

lemma decimal_power: "decimal (10 ^ k) = CHR ''1'' # replicate k CHR ''0''"
proof (induction k)
  case 0
  show ?case by (subst decimal.simps) (simp add: digitChar_def)
next
  case (Suc k)
  have "\<not> (10::nat) ^ Suc k < 10" by simp
  then have "decimal (10 ^ Suc k) = decimal (10 ^ Suc k div 10) @ [digitChar (10 ^ Suc k mod 10)]"
    by (subst decimal.simps) (simp only: if_False)
  also have "\<dots> = decimal (10 ^ k) @ [CHR ''0'']"
    by (simp add: digitChar_def)
  finally show ?case
    by (simp add: Suc.IH replicate_append_same)
qed

lemma roundToDouble_sextillion: "roundToDouble (10 ^ 21) = 10 ^ 21"
proof -
  have b: "bitLength (10 ^ 21) = Suc 69"
    by (rule bitLength_eq) simp_all
  show ?thesis
    unfolding roundToDouble_def b by (simp add: Let_def)
qed

lemma NumberToString_sextillion: "NumberToString (Fin (10 ^ 21)) = ''1e+21''"
proof -
  have n: "nat \<bar>10 ^ 21 :: int\<bar> = 10 ^ 21"
    by (simp add: nat_power_eq)
  have d: "decimal (10 ^ 21) = CHR ''1'' # replicate 21 CHR ''0''"
    by (rule decimal_power)
  have "pickDigits (10 ^ 21) 21 = Some (10 ^ 21)"
    by (rule pickDigits_exact) (simp_all only: roundsTo_def roundToDouble_sextillion dvd_refl)
  then have s: "shortestRoundTrip (10 ^ 21) 21 = 10 ^ 21"
    by (rule shortestRoundTrip_pick)
  have l: "length (decimal (10 ^ 21)) - 1 = 21"
    unfolding d by simp
  have z: "dropWhile (\<lambda>c. c = CHR ''0'') (replicate 21 CHR ''0'' @ ''1'') = ''1''"
    by (subst dropWhile_append2) simp_all
  have e: "exponentForm (10 ^ 21) = ''1e+21''"
    unfolding exponentForm_def d by (simp add: Let_def z decimal.simps digitChar_def)
  have "NumberToString (Fin (10 ^ 21)) =
      (if length (decimal (10 ^ 21)) \<le> 21 then decimal (10 ^ 21) else exponentForm (10 ^ 21))"
    unfolding NumberToString_def jsnum.case n l unfolding Let_def s by simp
  also have "\<dots> = ''1e+21''"
    unfolding e d by simp
  finally show ?thesis .
qed

lemma parseInt_exponent_text: "parseInt ''1e+21'' 0 = Fin 1"
  by (simp add: parseInt_def isWhiteSpace_def isRadixDigit_def digitValue_def digitsValue_def
      toDouble_def roundToDouble_def)

lemma parseInt_Infinity_text: "parseInt (NumberToString (Infty b)) 0 = NaN"
  by (simp add: NumberToString_def parseInt_def isWhiteSpace_def isRadixDigit_def digitValue_def)

text \<open>Facts about the clients, the configuration and the mock stream.\<close>

lemma session_env_Some:
  "(session_env s k = Some v) = (\<exists>ss e. s = Some ss \<and> env ss = Some e \<and> e k = Some v)"
  by (auto simp: session_env_def split: option.splits)

lemma usingClaudeDesktop_log [simp]:
  "usingClaudeDesktop (log_info w m) s = usingClaudeDesktop w s"
  "usingClaudeDesktop (log_warn w m) s = usingClaudeDesktop w s"
  "usingClaudeDesktop (log_error w m) s = usingClaudeDesktop w s"
  by (simp_all add: usingClaudeDesktop_def)

lemma no_options_no_key: "apiKey no_options = None"
  by (simp add: no_options_def)

lemma parseInt_no_number:
  assumes "\<not> isWhiteSpace c" and "c \<noteq> CHR ''+''" and "c \<noteq> CHR ''-''" and "\<not> isDecimalDigit c"
  shows "parseInt (c # cs) 0 = NaN"
proof -
  have "c \<noteq> CHR ''0''"
    using assms(4) by (auto simp: isDecimalDigit_def isRadixDigit_def digitValue_def)
  with assms show ?thesis
    by (simp add: parseInt_def Let_def isDecimalDigit_def)
qed

lemma parseInt_abc: "parseInt ''abc'' 0 = NaN"
  by (simp add: parseInt_def isWhiteSpace_def isRadixDigit_def digitValue_def)

lemma matchChunks_sentinel: "matchChunks ''NOT_IMPLEMENTED'' = [''NOT_IMPLEMENTED'']"
  by (simp add: matchChunks.simps isLineTerminator_def)

lemma deltaTexts_deltas:
  "deltaTexts (map (\<lambda>chunk. content_block_delta chunk 0) cs @ es) = cs @ deltaTexts es"
  by (induction cs) simp_all

text \<open>Facts about the prompts and about the example call.\<close>

lemma systemPromptText_nonempty: "systemPromptText n p d \<noteq> []"
  by (simp add: systemPromptText_def)

lemma sublist_suffix_part: "sublist doc (pre @ doc)"
  by (simp add: sublist_def) (metis append_Nil2)

lemma sublist_middle: "sublist xs (pre @ xs @ post)"
  by (auto simp: sublist_def)

lemma sublist_concat_segment:
  assumes "take k (drop i xss) = ys"
  shows "sublist (concat ys) (concat xss)"
proof -
  have "xss = take i xss @ drop i xss"
    by (simp only: append_take_drop_id)
  also have "drop i xss = take k (drop i xss) @ drop k (drop i xss)"
    by (simp only: append_take_drop_id)
  finally have "xss = take i xss @ ys @ drop k (drop i xss)"
    by (simp only: assms)
  then have "concat xss = concat (take i xss) @ concat ys @ concat (drop k (drop i xss))"
    by (metis concat_append)
  then show ?thesis
    by (simp only: sublist_middle)
qed

text \<open>The three places of the system prompt that carry the task count.\<close>

lemma systemPromptText_count:
  \<open>sublist (''Your goal is to create exactly '' @ ToString n
      @ '' well-structured, actionable development tasks'') (systemPromptText n p d)\<close>
  \<open>sublist (''1. Number tasks from 1 to '' @ ToString n @ ''.\<newline>'') (systemPromptText n p d)\<close>
  \<open>sublist (''    "totalTasks": '' @ ToString n @ '',\<newline>'') (systemPromptText n p d)\<close>
proof -
  let ?first = \<open>[''You are an AI assistant tasked with breaking down a Product Requirements Document (PRD) into a set of sequential development tasks. Your goal is to create exactly '',
      ToString n, '' well-structured, actionable development tasks based on the PRD provided.\<newline>'']\<close>
  have \<open>concat ?first =
    ''You are an AI assistant tasked with breaking down a Product Requirements Document (PRD) into a set of sequential development tasks. ''
     @ (''Your goal is to create exactly '' @ ToString n
      @ '' well-structured, actionable development tasks'') @ '' based on the PRD provided.\<newline>''\<close>
    by simp
  then have a: \<open>sublist (''Your goal is to create exactly '' @ ToString n
      @ '' well-structured, actionable development tasks'') (concat ?first)\<close>
    by (simp only: sublist_middle)
  have \<open>sublist (concat ?first) (systemPromptText n p d)\<close>
    unfolding systemPromptText_def
    by (rule sublist_concat_segment [where i = 0 and k = 3]) simp
  with a show \<open>sublist (''Your goal is to create exactly '' @ ToString n
      @ '' well-structured, actionable development tasks'') (systemPromptText n p d)\<close>
    by (rule sublist_order.order_trans)
  have \<open>sublist (concat [''1. Number tasks from 1 to '', ToString n, ''.\<newline>'']) (systemPromptText n p d)\<close>
    unfolding systemPromptText_def
    by (rule sublist_concat_segment [where i = 29 and k = 3]) simp
  then show \<open>sublist (''1. Number tasks from 1 to '' @ ToString n @ ''.\<newline>'') (systemPromptText n p d)\<close>
    by (simp only: concat.simps append_Nil2)
  have \<open>sublist (concat [''    "totalTasks": '', ToString n, '',\<newline>'']) (systemPromptText n p d)\<close>
    unfolding systemPromptText_def
    by (rule sublist_concat_segment [where i = 61 and k = 3]) simp
  then show \<open>sublist (''    "totalTasks": '' @ ToString n @ '',\<newline>'') (systemPromptText n p d)\<close>
    by (simp only: concat.simps append_Nil2)
qed

lemma example_envelope:
  "fst (parsePRDDirect (example_args\<lparr>numTasks := v\<rparr>) example_context example_world) =
     \<lparr>success = True,
      data = Some (Delegated
        \<lparr>data_message = ''PRD parsing should be handled directly by Claude'',
         data_shouldBeHandledByClaudeDirectly = True,
         data_systemPrompt =
           systemPromptText (fst (parseNumTasks v example_world)) ''/p/scripts/prd.txt'' ''2025-01-01'',
         data_userPrompt =
           ''Here's the Product Requirements Document (PRD) to break down into ''
           @ ToString (fst (parseNumTasks v example_world)) @ '' tasks:\<newline>\<newline>'' @ ''Build a thing.'',
         data_outputPath = ''/p/tasks/tasks.json'',
         data_numTasks = fst (parseNumTasks v example_world),
         data_append = False\<rparr>),
      error = None, fromCache = False\<rparr>"
proof -
  let ?a = "example_args\<lparr>numTasks := v\<rparr>"
  have t: "truthyStr (projectRoot example_args)" "truthyStr (input_arg example_args)"
      "truthyStr (output_arg example_args)"
    by (simp_all add: example_args_def truthyStr_def)
  have s: "str (projectRoot ?a) = ''/p''" "str (input_arg ?a) = ''scripts/prd.txt''"
      "str (output_arg ?a) = ''tasks/tasks.json''"
    by (simp_all add: example_args_def str_def)
  have ex: "existsSync (files example_world) ''/p/scripts/prd.txt''"
    by (simp add: existsSync_def example_world_def)
  have rd: "readFileSync (files example_world) ''/p/scripts/prd.txt'' = Inr ''Build a thing.''"
    by (simp add: readFileSync_def example_world_def)
  have d: "fst (ensureOutputDir ''/p/tasks'' example_world) = Inr ()"
    using example_mkdir by (auto simp: ensureOutputDir_result split: sum.splits)
  have m: "numTasks ?a = v" "truthy (append_arg ?a) = False" "today example_world = ''2025-01-01''"
    by (simp_all add: example_args_def example_world_def truthy_def)
  show ?thesis
    unfolding parsePRDDirect_envelope parsePRDDirect_read_envelope parsePRDDirect_generate_envelope
      s example_paths m
    by (simp add: t ex rd d)
qed

lemma example_args_numTasks: "example_args\<lparr>numTasks := JNum (Fin 5)\<rparr> = example_args"
  by (simp add: example_args_def)

lemma parsePRDDirect_succeeds:
  assumes "projectRoot a = Some r" "r \<noteq> []" "input_arg a = Some i" "i \<noteq> []"
    and "output_arg a = Some out" "out \<noteq> []"
    and "files w (resolveArg w r i) = Some (File prd)"
    and "fst (ensureOutputDir (dirname (resolveArg w r out)) w) = Inr ()"
  shows "success (fst (parsePRDDirect a ctx w))"
proof -
  have t: "truthyStr (projectRoot a)" "truthyStr (input_arg a)" "truthyStr (output_arg a)"
    using assms by (simp_all add: truthyStr_def)
  have s: "str (projectRoot a) = r" "str (input_arg a) = i" "str (output_arg a) = out"
    using assms by (simp_all add: str_def)
  have ex: "existsSync (files w) (resolveArg w r i)"
    using assms(7) by (simp add: existsSync_def)
  have rd: "readFileSync (files w) (resolveArg w r i) = Inr prd"
    using assms(7) by (simp add: readFileSync_eq)
  show ?thesis
    unfolding parsePRDDirect_envelope parsePRDDirect_read_envelope parsePRDDirect_generate_envelope s
    by (simp add: t ex rd assms(8))
qed

lemma example_five: "fst (parseNumTasks (JNum (Fin 5)) w) = JNum (Fin 5)"
  by (simp add: parseNumTasks_eq truthy_def)

lemma ensureOutputDir_succeeds:
  "existsSync (files w) p \<or> (\<exists>fs'. mkdirSync_recursive (files w) p = Inr fs')
   \<Longrightarrow> fst (ensureOutputDir p w) = Inr ()"
  by (auto simp: ensureOutputDir_result)

text \<open>The warnings of a call, and what the \<^verbatim>\<open>numTasks\<close> argument can change.\<close>

lemma parseNumTasks_warnings:
  "warnings (snd (parseNumTasks v w)) = warnings w @ numTasksWarning v"
  by (simp add: parseNumTasks_eq numTasksWarning_def split: jsval.splits)

lemma warnings_keep_log [simp]:
  "warnings (w\<lparr>logged := logged w @ [(LogInfo, m)]\<rparr>) = warnings w"
  by (simp add: warnings_def)

lemma ensureOutputDir_warnings: "ensureOutputDir d w = (r, w') \<Longrightarrow> warnings w' = warnings w"
  by (rule ensureOutputDir_frame(5))

lemma catchAll_warnings: "catchAll e w = (r, w') \<Longrightarrow> warnings w' = warnings w \<and> \<not> success r"
  by (auto simp: catchAll_def)

lemma parsePRDDirect_generate_warnings:
  assumes "parsePRDDirect_generate a s rootDir inputPath doc w3 = (e, w')"
  shows "warnings w' = warnings w3 @ (if success e then numTasksWarning (numTasks a) else [])"
proof (cases "ensureOutputDir (dirname (resolveArg w3 rootDir (str (output_arg a))))
            (log_info w3 (''Read '' @ decimal (length doc) @ '' bytes from '' @ inputPath))")
  case (Pair r w5)
  have k5: "warnings w5 = warnings w3"
    using ensureOutputDir_warnings [OF Pair] by simp
  show ?thesis
  proof (cases r)
    case (Inl x)
    with Pair assms have "catchAll x w5 = (e, w')"
      by (simp add: parsePRDDirect_generate_eq)
    then show ?thesis using k5 catchAll_warnings by fastforce
  next
    case (Inr u)
    obtain n w6 where n: "parseNumTasks (numTasks a) w5 = (n, w6)"
      by (cases "parseNumTasks (numTasks a) w5")
    then have "warnings w6 = warnings w5 @ numTasksWarning (numTasks a)"
      using parseNumTasks_warnings [of "numTasks a" w5] by simp
    moreover from Pair Inr n assms
    have "success e \<and> (\<exists>m1 m2 m3. w' = log_info (log_info (log_info w6 m1) m2) m3)"
      by (auto simp: parsePRDDirect_generate_eq)
    ultimately show ?thesis using k5 by auto
  qed
qed

lemma parsePRDDirect_read_warnings:
  assumes "parsePRDDirect_read a s w3 = (e, w')"
  shows "warnings w' = warnings w3 @ (if success e then numTasksWarning (numTasks a) else [])"
proof (cases "existsSync (files w3) (resolveArg w3 (str (projectRoot a)) (str (input_arg a)))")
  case False
  with assms show ?thesis
    by (auto simp: parsePRDDirect_read_def Let_def)
next
  case True
  show ?thesis
  proof (cases "readFileSync (files w3) (resolveArg w3 (str (projectRoot a)) (str (input_arg a)))")
    case (Inl x)
    with True assms have "catchAll x w3 = (e, w')"
      by (simp add: parsePRDDirect_read_def Let_def)
    then show ?thesis using catchAll_warnings by fastforce
  next
    case (Inr doc)
    with True assms have "parsePRDDirect_generate a s (str (projectRoot a))
        (resolveArg w3 (str (projectRoot a)) (str (input_arg a))) doc w3 = (e, w')"
      by (simp add: parsePRDDirect_read_def Let_def)
    then show ?thesis by (rule parsePRDDirect_generate_warnings)
  qed
qed

lemma parsePRDDirect_warnings:
  "warnings (snd (parsePRDDirect a ctx w)) =
     warnings w @ (if success (fst (parsePRDDirect a ctx w)) then numTasksWarning (numTasks a) else [])"
proof -
  obtain e w' where r: "parsePRDDirect a ctx w = (e, w')"
    by (cases "parsePRDDirect a ctx w")
  have "warnings w' = warnings w @ (if success e then numTasksWarning (numTasks a) else [])"
  proof (cases "truthyStr (projectRoot a) \<and> truthyStr (input_arg a) \<and> truthyStr (output_arg a)")
    case True
    with r have "parsePRDDirect_read a (context_session ctx) (entered a w) = (e, w')"
      by (simp add: parsePRDDirect_entered)
    from parsePRDDirect_read_warnings [OF this] show ?thesis by simp
  next
    case False
    with r show ?thesis
      by (auto simp: parsePRDDirect_entered split: if_splits)
  qed
  with r show ?thesis by simp
qed

lemma parsePRDDirect_numTasks_outcome:
  "error (fst (parsePRDDirect (a\<lparr>numTasks := v\<rparr>) ctx w)) = error (fst (parsePRDDirect a ctx w))"
  "success (fst (parsePRDDirect (a\<lparr>numTasks := v\<rparr>) ctx w)) = success (fst (parsePRDDirect a ctx w))"
  by (simp_all add: parsePRDDirect_envelope parsePRDDirect_read_envelope
      parsePRDDirect_generate_envelope catchAll_envelope split: sum.splits)

lemma parsePRDDirect_numTasks_data:
  assumes "success (fst (parsePRDDirect a ctx w))"
  shows "\<exists>d. data (fst (parsePRDDirect a ctx w)) = Some (Delegated d)
            \<and> data_numTasks d = fst (parseNumTasks (numTasks a) w)"
  using parsePRDDirect_success [OF assms] by force

lemma parseInt_empty: "parseInt [] r = NaN"
  by (simp add: parseInt_def)

lemma existsSync_None: "existsSync fs p = (fs p \<noteq> None)"
  by (simp add: existsSync_def)

section \<open>The claims\<close>

subsection \<open>C1: the delegating envelope carries the document\<close>

text \<open>
  C1. For every document text, path and task count, the result of \<open>generateTasksFromPRD\<close>
  has \<^verbatim>\<open>shouldBeHandledByClaudeDirectly\<close> true, both of its prompts are non-empty, and the user
  prompt ends with the document text, unchanged and whole (so the text is a substring of
  it). The same holds of the envelope \<open>parsePRDDirect\<close> returns: whenever it reports success,
  its data is the delegating object, both prompts in it are non-empty, and its user prompt
  contains the whole content of the input file.
\<close>

theorem delegated_prompts_embed_document:
  "shouldBeHandledByClaudeDirectly (fst (generateTasksFromPRD doc path n w0))
   \<and> systemPrompt (fst (generateTasksFromPRD doc path n w0)) \<noteq> []
   \<and> userPrompt (fst (generateTasksFromPRD doc path n w0)) \<noteq> []
   \<and> sublist doc (userPrompt (fst (generateTasksFromPRD doc path n w0)))
   \<and> suffix doc (userPrompt (fst (generateTasksFromPRD doc path n w0)))
   \<and> (success (fst (parsePRDDirect a ctx w)) \<longrightarrow>
        (\<exists>d r i prd.
           data (fst (parsePRDDirect a ctx w)) = Some (Delegated d)
           \<and> projectRoot a = Some r \<and> input_arg a = Some i
           \<and> files w (if isAbsolute i then i else path_resolve (workdir w) [r, i]) = Some (File prd)
           \<and> data_shouldBeHandledByClaudeDirectly d
           \<and> data_systemPrompt d \<noteq> [] \<and> data_userPrompt d \<noteq> []
           \<and> sublist prd (data_userPrompt d)))"
proof -
  have g: "shouldBeHandledByClaudeDirectly (fst (generateTasksFromPRD doc path n w0))
   \<and> systemPrompt (fst (generateTasksFromPRD doc path n w0)) \<noteq> []
   \<and> userPrompt (fst (generateTasksFromPRD doc path n w0)) \<noteq> []
   \<and> sublist doc (userPrompt (fst (generateTasksFromPRD doc path n w0)))
   \<and> suffix doc (userPrompt (fst (generateTasksFromPRD doc path n w0)))"
    by (simp add: generateTasksFromPRD_def Let_def systemPromptText_nonempty suffix_def
        sublist_suffix_part [of doc "''Here's the Product Requirements Document (PRD) to break down into '' @ ToString n @ '' tasks:\<newline>\<newline>''", simplified])
  have p: "success (fst (parsePRDDirect a ctx w)) \<longrightarrow>
        (\<exists>d r i prd.
           data (fst (parsePRDDirect a ctx w)) = Some (Delegated d)
           \<and> projectRoot a = Some r \<and> input_arg a = Some i
           \<and> files w (if isAbsolute i then i else path_resolve (workdir w) [r, i]) = Some (File prd)
           \<and> data_shouldBeHandledByClaudeDirectly d
           \<and> data_systemPrompt d \<noteq> [] \<and> data_userPrompt d \<noteq> []
           \<and> sublist prd (data_userPrompt d))"
  proof
    assume "success (fst (parsePRDDirect a ctx w))"
    from parsePRDDirect_success [OF this]
    obtain r i out prd where
      a: "projectRoot a = Some r" "input_arg a = Some i"
      and f: "files w (resolveArg w r i) = Some (File prd)"
      and e: "fst (parsePRDDirect a ctx w) =
      \<lparr>success = True,
       data = Some (Delegated
         \<lparr>data_message = ''PRD parsing should be handled directly by Claude'',
          data_shouldBeHandledByClaudeDirectly = True,
          data_systemPrompt =
            systemPromptText (fst (parseNumTasks (numTasks a) w)) (resolveArg w r i) (today w),
          data_userPrompt =
            ''Here's the Product Requirements Document (PRD) to break down into ''
            @ ToString (fst (parseNumTasks (numTasks a) w)) @ '' tasks:\<newline>\<newline>'' @ prd,
          data_outputPath = resolveArg w r out,
          data_numTasks = fst (parseNumTasks (numTasks a) w),
          data_append = truthy (append_arg a)\<rparr>),
       error = None, fromCache = False\<rparr>"
      by blast
    have s: "sublist prd (''Here's the Product Requirements Document (PRD) to break down into ''
            @ ToString (fst (parseNumTasks (numTasks a) w)) @ '' tasks:\<newline>\<newline>'' @ prd)"
      using sublist_suffix_part [of prd "''Here's the Product Requirements Document (PRD) to break down into ''
            @ ToString (fst (parseNumTasks (numTasks a) w)) @ '' tasks:\<newline>\<newline>''"]
      by (simp only: append_assoc)
    show "\<exists>d r i prd.
           data (fst (parsePRDDirect a ctx w)) = Some (Delegated d)
           \<and> projectRoot a = Some r \<and> input_arg a = Some i
           \<and> files w (if isAbsolute i then i else path_resolve (workdir w) [r, i]) = Some (File prd)
           \<and> data_shouldBeHandledByClaudeDirectly d
           \<and> data_systemPrompt d \<noteq> [] \<and> data_userPrompt d \<noteq> []
           \<and> sublist prd (data_userPrompt d)"
      unfolding e using a f s
      by (simp add: systemPromptText_nonempty resolveArg_def del: append_assoc)
  qed
  from g p show ?thesis by blast
qed

theorem delegated_prompts_embed_document_witness:
  "success (fst (parsePRDDirect example_args example_context example_world))
   \<and> (\<exists>d. data (fst (parsePRDDirect example_args example_context example_world)) = Some (Delegated d)
        \<and> data_systemPrompt d \<noteq> [] \<and> data_userPrompt d \<noteq> []
        \<and> sublist ''Build a thing.'' (data_userPrompt d))"
proof -
  have s: "success (fst (parsePRDDirect example_args example_context example_world))"
    using example_envelope [of "JNum (Fin 5)"] by (simp add: example_args_numTasks)
  have f: "files example_world ''/p/scripts/prd.txt'' = Some (File prd) \<Longrightarrow> prd = ''Build a thing.''" for prd
    by (simp add: example_world_def)
  from delegated_prompts_embed_document
    [of "''Build a thing.''" "''/p/scripts/prd.txt''" "JNum (Fin 5)" example_world
        example_args example_context example_world] s
  obtain d r i prd where
    "data (fst (parsePRDDirect example_args example_context example_world)) = Some (Delegated d)"
    "projectRoot example_args = Some r" "input_arg example_args = Some i"
    "files example_world (if isAbsolute i then i else path_resolve (workdir example_world) [r, i])
       = Some (File prd)"
    "data_systemPrompt d \<noteq> []" "data_userPrompt d \<noteq> []" "sublist prd (data_userPrompt d)"
    by blast
  moreover from this have "prd = ''Build a thing.''"
    using f example_paths(1) by (simp add: example_args_def resolveArg_def)
  ultimately show ?thesis
    using s by blast
qed

subsection \<open>C2: the execution mode is the disjunction of the two flags\<close>

text \<open>
  C2. For every process environment and session, the direct-generation mode is taken
  exactly when \<^verbatim>\<open>CLAUDE_DESKTOP\<close> is the string \<^verbatim>\<open>'true'\<close> in the process environment or in the
  session environment (a missing session, a missing environment, a missing key and any
  other text all count as false); neither source overrides the other. The mode shows in
  what the functions do: \<open>getAnthropicClientForMCP\<close> and \<open>getPerplexityClientForMCP\<close> return
  the client built without options exactly in that mode, and \<open>getBestAvailableAIModel\<close>
  takes its first branch exactly in that mode.
\<close>

theorem direct_mode_iff_either_flag:
  "usingClaudeDesktop w s =
     (process_env w ''CLAUDE_DESKTOP'' = Some ''true''
      \<or> (\<exists>ss e. s = Some ss \<and> env ss = Some e \<and> e ''CLAUDE_DESKTOP'' = Some ''true''))
   \<and> (fst (getAnthropicClientForMCP s w) = Inr (MockAnthropicClient no_options)) = usingClaudeDesktop w s
   \<and> (fst (getPerplexityClientForMCP s w) = Inr (MockPerplexityClient no_options)) = usingClaudeDesktop w s
   \<and> (\<exists>c. getBestAvailableAIModel s opts w =
          (Inr \<lparr>selection_type = ''claude'', selection_client = c\<rparr>,
           log_info (log_info w ''Using Claude Desktop mode for AI operations'')
             ''Using Claude Desktop mode with mock Anthropic client''))
       = usingClaudeDesktop w s"
proof -
  have 1: "usingClaudeDesktop w s =
     (process_env w ''CLAUDE_DESKTOP'' = Some ''true''
      \<or> (\<exists>ss e. s = Some ss \<and> env ss = Some e \<and> e ''CLAUDE_DESKTOP'' = Some ''true''))"
    by (simp add: usingClaudeDesktop_def session_env_Some)
  have 2: "(fst (getAnthropicClientForMCP s w) = Inr (MockAnthropicClient no_options)) = usingClaudeDesktop w s"
    by (auto simp: getAnthropicClientForMCP_def Let_def no_options_def truthyStr_def orElse_def
        split: option.splits if_splits)
  have 3: "(fst (getPerplexityClientForMCP s w) = Inr (MockPerplexityClient no_options)) = usingClaudeDesktop w s"
    by (auto simp: getPerplexityClientForMCP_def Let_def no_options_def truthyStr_def orElse_def
        split: option.splits if_splits)
  have neq: "logged w1 \<noteq> logged w2 \<Longrightarrow> w1 \<noteq> w2" for w1 w2 :: world
    by auto
  have 4: "(\<exists>c. getBestAvailableAIModel s opts w =
          (Inr \<lparr>selection_type = ''claude'', selection_client = c\<rparr>,
           log_info (log_info w ''Using Claude Desktop mode for AI operations'')
             ''Using Claude Desktop mode with mock Anthropic client''))
       = usingClaudeDesktop w s"
  proof (cases "usingClaudeDesktop w s")
    case True
    then show ?thesis
      by (simp add: getBestAvailableAIModel_def getAnthropicClientForMCP_def)
  next
    case False
    have "logged (snd (getBestAvailableAIModel s opts w)) \<noteq>
        logged (log_info (log_info w ''Using Claude Desktop mode for AI operations'')
             ''Using Claude Desktop mode with mock Anthropic client'')"
      using False
      by (simp add: getBestAvailableAIModel_def defaultToClaude_def getAnthropicClientForMCP_def
          getPerplexityClientForMCP_def Let_def split: option.splits)
    then have "snd (getBestAvailableAIModel s opts w) \<noteq>
        log_info (log_info w ''Using Claude Desktop mode for AI operations'')
             ''Using Claude Desktop mode with mock Anthropic client''"
      by (rule neq)
    with False show ?thesis by auto
  qed
  from 1 2 3 4 show ?thesis by blast
qed

text \<open>The four combinations of the flags, and the case without a session.\<close>

theorem direct_mode_iff_either_flag_witness:
  "usingClaudeDesktop (example_world\<lparr>process_env := [''CLAUDE_DESKTOP'' \<mapsto> ''true'']\<rparr>) None
   \<and> usingClaudeDesktop example_world (Some \<lparr>env = Some [''CLAUDE_DESKTOP'' \<mapsto> ''true'']\<rparr>)
   \<and> usingClaudeDesktop (example_world\<lparr>process_env := [''CLAUDE_DESKTOP'' \<mapsto> ''true'']\<rparr>)
         (Some \<lparr>env = Some [''CLAUDE_DESKTOP'' \<mapsto> ''false'']\<rparr>)
   \<and> \<not> usingClaudeDesktop (example_world\<lparr>process_env := [''CLAUDE_DESKTOP'' \<mapsto> ''false'']\<rparr>)
         (Some \<lparr>env = Some Map.empty\<rparr>)
   \<and> \<not> usingClaudeDesktop example_world None"
  using direct_mode_iff_either_flag [of "example_world\<lparr>process_env := [''CLAUDE_DESKTOP'' \<mapsto> ''true'']\<rparr>" None]
    direct_mode_iff_either_flag [of example_world "Some \<lparr>env = Some [''CLAUDE_DESKTOP'' \<mapsto> ''true'']\<rparr>"]
    direct_mode_iff_either_flag [of "example_world\<lparr>process_env := [''CLAUDE_DESKTOP'' \<mapsto> ''true'']\<rparr>"
      "Some \<lparr>env = Some [''CLAUDE_DESKTOP'' \<mapsto> ''false'']\<rparr>"]
    direct_mode_iff_either_flag [of "example_world\<lparr>process_env := [''CLAUDE_DESKTOP'' \<mapsto> ''false'']\<rparr>"
      "Some \<lparr>env = Some Map.empty\<rparr>"]
    direct_mode_iff_either_flag [of example_world None]
  by (simp add: example_world_def)

subsection \<open>C3: the direct mode decides the selection\<close>

text \<open>
  C3. When \<^verbatim>\<open>CLAUDE_DESKTOP\<close> is \<^verbatim>\<open>'true'\<close> in the process environment or in the session,
  \<open>getBestAvailableAIModel\<close> returns the selection of type \<^verbatim>\<open>'claude'\<close> with the mock client
  built without options, for every options object (\<^verbatim>\<open>requiresResearch\<close>,
  \<^verbatim>\<open>claudeOverloaded\<close>) and whatever keys are or are not present.
\<close>

theorem direct_mode_selects_claude:
  assumes "process_env w ''CLAUDE_DESKTOP'' = Some ''true''
           \<or> session_env s ''CLAUDE_DESKTOP'' = Some ''true''"
  shows "fst (getBestAvailableAIModel s opts w) =
           Inr \<lparr>selection_type = ''claude'', selection_client = MockAnthropicClient no_options\<rparr>"
proof -
  from assms have "usingClaudeDesktop w s"
    by (simp add: usingClaudeDesktop_def)
  then show ?thesis
    by (simp add: getBestAvailableAIModel_def getAnthropicClientForMCP_def)
qed

text \<open>
  A session that asks for research, holds a Perplexity key and no Anthropic key still
  gets the \<^verbatim>\<open>'claude'\<close> selection.
\<close>

theorem direct_mode_selects_claude_witness:
  "fst (getBestAvailableAIModel
          (Some \<lparr>env = Some [''CLAUDE_DESKTOP'' \<mapsto> ''true'', ''PERPLEXITY_API_KEY'' \<mapsto> ''pplx-key'']\<rparr>)
          \<lparr>requiresResearch = Some True, claudeOverloaded = Some True\<rparr>
          example_world)
     = Inr \<lparr>selection_type = ''claude'', selection_client = MockAnthropicClient no_options\<rparr>"
  using direct_mode_selects_claude
    [of example_world
        "Some \<lparr>env = Some [''CLAUDE_DESKTOP'' \<mapsto> ''true'', ''PERPLEXITY_API_KEY'' \<mapsto> ''pplx-key'']\<rparr>"
        "\<lparr>requiresResearch = Some True, claudeOverloaded = Some True\<rparr>"]
  by (simp add: session_env_def)

subsection \<open>C4: no file is written, and the output path is the resolved argument\<close>

text \<open>
  C4. For every call of \<open>parsePRDDirect\<close>, whatever its outcome, the regular files after the
  call are the regular files before it, with the same contents: no file is created and
  none is modified, the output file included (the call may create the directory that is
  to hold it). When the call succeeds, the \<^verbatim>\<open>outputPath\<close> of its data is the output
  argument itself when that is absolute, and otherwise the argument resolved against the
  project root; it is an absolute path when the working directory is one. And the call
  does succeed when the three path arguments are given, the input path holds a regular
  file, and the directory of the output path exists or can be created. The mode is the
  direct one in every call, since the function sets the flag itself.
\<close>

theorem parsePRDDirect_writes_no_file:
  "(\<forall>q c. (files (snd (parsePRDDirect a ctx w)) q = Some (File c)) = (files w q = Some (File c)))
   \<and> (success (fst (parsePRDDirect a ctx w)) \<longrightarrow>
        (\<exists>d r out.
           data (fst (parsePRDDirect a ctx w)) = Some (Delegated d)
           \<and> projectRoot a = Some r \<and> output_arg a = Some out
           \<and> data_outputPath d = (if isAbsolute out then out else path_resolve (workdir w) [r, out])
           \<and> (isAbsolute (workdir w) \<longrightarrow> isAbsolute (data_outputPath d))))
   \<and> (projectRoot a = Some r \<and> r \<noteq> [] \<and> input_arg a = Some i \<and> i \<noteq> []
        \<and> output_arg a = Some out \<and> out \<noteq> []
        \<and> files w (if isAbsolute i then i else path_resolve (workdir w) [r, i]) = Some (File prd)
        \<and> (existsSync (files w) (dirname (if isAbsolute out then out else path_resolve (workdir w) [r, out]))
            \<or> (\<exists>fs'. mkdirSync_recursive (files w)
                   (dirname (if isAbsolute out then out else path_resolve (workdir w) [r, out])) = Inr fs'))
      \<longrightarrow> success (fst (parsePRDDirect a ctx w)))"
proof -
  obtain e w' where r: "parsePRDDirect a ctx w = (e, w')"
    by (cases "parsePRDDirect a ctx w")
  then have "keeps (entered a w) w'"
    by (rule parsePRDDirect_effect)
  then have 1: "\<forall>q c. (files (snd (parsePRDDirect a ctx w)) q = Some (File c)) = (files w q = Some (File c))"
    using r by (simp add: keeps_def)
  have 2: "success (fst (parsePRDDirect a ctx w)) \<longrightarrow>
        (\<exists>d r out.
           data (fst (parsePRDDirect a ctx w)) = Some (Delegated d)
           \<and> projectRoot a = Some r \<and> output_arg a = Some out
           \<and> data_outputPath d = (if isAbsolute out then out else path_resolve (workdir w) [r, out])
           \<and> (isAbsolute (workdir w) \<longrightarrow> isAbsolute (data_outputPath d)))"
  proof
    assume "success (fst (parsePRDDirect a ctx w))"
    from parsePRDDirect_success [OF this]
    obtain r' i' out' prd' where
      a: "projectRoot a = Some r'" "output_arg a = Some out'"
      and e: "fst (parsePRDDirect a ctx w) =
      \<lparr>success = True,
       data = Some (Delegated
         \<lparr>data_message = ''PRD parsing should be handled directly by Claude'',
          data_shouldBeHandledByClaudeDirectly = True,
          data_systemPrompt =
            systemPromptText (fst (parseNumTasks (numTasks a) w)) (resolveArg w r' i') (today w),
          data_userPrompt =
            ''Here's the Product Requirements Document (PRD) to break down into ''
            @ ToString (fst (parseNumTasks (numTasks a) w)) @ '' tasks:\<newline>\<newline>'' @ prd',
          data_outputPath = resolveArg w r' out',
          data_numTasks = fst (parseNumTasks (numTasks a) w),
          data_append = truthy (append_arg a)\<rparr>),
       error = None, fromCache = False\<rparr>"
      by blast
    have "isAbsolute (workdir w) \<longrightarrow> isAbsolute (resolveArg w r' out')"
      by (simp add: resolveArg_def isAbsolute_path_resolve)
    then show "\<exists>d r out.
           data (fst (parsePRDDirect a ctx w)) = Some (Delegated d)
           \<and> projectRoot a = Some r \<and> output_arg a = Some out
           \<and> data_outputPath d = (if isAbsolute out then out else path_resolve (workdir w) [r, out])
           \<and> (isAbsolute (workdir w) \<longrightarrow> isAbsolute (data_outputPath d))"
      unfolding e using a by (simp add: resolveArg_def)
  qed
  have 3: "projectRoot a = Some r \<and> r \<noteq> [] \<and> input_arg a = Some i \<and> i \<noteq> []
        \<and> output_arg a = Some out \<and> out \<noteq> []
        \<and> files w (if isAbsolute i then i else path_resolve (workdir w) [r, i]) = Some (File prd)
        \<and> (existsSync (files w) (dirname (if isAbsolute out then out else path_resolve (workdir w) [r, out]))
            \<or> (\<exists>fs'. mkdirSync_recursive (files w)
                   (dirname (if isAbsolute out then out else path_resolve (workdir w) [r, out])) = Inr fs'))
      \<longrightarrow> success (fst (parsePRDDirect a ctx w))"
    using parsePRDDirect_succeeds [of a r i out w prd ctx]
      ensureOutputDir_succeeds [of w "dirname (resolveArg w r out)"]
    unfolding resolveArg_def by blast
  from 1 2 3 show ?thesis by blast
qed

theorem parsePRDDirect_writes_no_file_witness:
  "success (fst (parsePRDDirect example_args example_context example_world))
   \<and> (\<forall>c. files (snd (parsePRDDirect example_args example_context example_world)) ''/p/tasks/tasks.json''
          \<noteq> Some (File c))
   \<and> files (snd (parsePRDDirect example_args example_context example_world)) ''/p/scripts/prd.txt''
       = Some (File ''Build a thing.'')
   \<and> (\<exists>d. data (fst (parsePRDDirect example_args example_context example_world)) = Some (Delegated d)
        \<and> data_outputPath d = ''/p/tasks/tasks.json'')"
proof -
  note t = parsePRDDirect_writes_no_file
    [of example_args example_context example_world "''/p''" "''scripts/prd.txt''" "''tasks/tasks.json''"
        "''Build a thing.''"]
  have p: "(if isAbsolute ''scripts/prd.txt'' then ''scripts/prd.txt''
            else path_resolve (workdir example_world) [''/p'', ''scripts/prd.txt'']) = ''/p/scripts/prd.txt''"
      "(if isAbsolute ''tasks/tasks.json'' then ''tasks/tasks.json''
            else path_resolve (workdir example_world) [''/p'', ''tasks/tasks.json'']) = ''/p/tasks/tasks.json''"
    using example_paths(1,2) by (simp_all add: resolveArg_def)
  have s: "success (fst (parsePRDDirect example_args example_context example_world))"
    using t example_mkdir unfolding p example_paths(3)
    by (simp add: example_args_def example_world_def)
  have f: "(files (snd (parsePRDDirect example_args example_context example_world)) q = Some (File c))
      = (files example_world q = Some (File c))" for q c
    using t by blast
  have o: "\<forall>c. files (snd (parsePRDDirect example_args example_context example_world)) ''/p/tasks/tasks.json''
          \<noteq> Some (File c)"
    unfolding f by (simp add: example_world_def)
  have i: "files (snd (parsePRDDirect example_args example_context example_world)) ''/p/scripts/prd.txt''
       = Some (File ''Build a thing.'')"
    unfolding f by (simp add: example_world_def)
  from t s obtain d r out where
    d: "data (fst (parsePRDDirect example_args example_context example_world)) = Some (Delegated d)"
      "projectRoot example_args = Some r" "output_arg example_args = Some out"
      "data_outputPath d = (if isAbsolute out then out else path_resolve (workdir example_world) [r, out])"
    by blast
  have "r = ''/p''" and "out = ''tasks/tasks.json''"
    using d(2,3) by (simp_all add: example_args_def)
  then have "data_outputPath d = ''/p/tasks/tasks.json''"
    using d(4) p(2) by (simp only:)
  with s o i d(1) show ?thesis by blast
qed

subsection \<open>C5: the order of validation\<close>

text \<open>
  C5. For every argument object, context and world, \<open>parsePRDDirect\<close> validates in the
  order project root, input, output, and the first violation decides the envelope: a
  project root that is absent (or empty) gives the failure with code
  \<^verbatim>\<open>MISSING_PROJECT_ROOT\<close>; otherwise an absent input gives \<^verbatim>\<open>MISSING_INPUT_PATH\<close>; otherwise
  an absent output gives \<^verbatim>\<open>MISSING_OUTPUT_PATH\<close>; otherwise, when nothing exists at the
  resolved input path, the failure has code \<^verbatim>\<open>INPUT_FILE_NOT_FOUND\<close> and its message and
  details name the path that was checked. A failure envelope has \<^verbatim>\<open>success\<close> false, no data,
  and the given code. The client is obtained before the validation and cannot fail there,
  since the function has just set the flag.
\<close>

theorem parsePRDDirect_validation_order:
  "(\<not> truthyStr (projectRoot a) \<longrightarrow>
      fst (parsePRDDirect a ctx w) =
        failure ''MISSING_PROJECT_ROOT'' ''Project root is required for parsePRDDirect'' None)
   \<and> (truthyStr (projectRoot a) \<and> \<not> truthyStr (input_arg a) \<longrightarrow>
      fst (parsePRDDirect a ctx w) =
        failure ''MISSING_INPUT_PATH'' ''Input file path is required for parsePRDDirect'' None)
   \<and> (truthyStr (projectRoot a) \<and> truthyStr (input_arg a) \<and> \<not> truthyStr (output_arg a) \<longrightarrow>
      fst (parsePRDDirect a ctx w) =
        failure ''MISSING_OUTPUT_PATH'' ''Output file path is required for parsePRDDirect'' None)
   \<and> (projectRoot a = Some r \<and> r \<noteq> [] \<and> input_arg a = Some i \<and> i \<noteq> []
        \<and> truthyStr (output_arg a)
        \<and> files w (if isAbsolute i then i else path_resolve (workdir w) [r, i]) = None \<longrightarrow>
      fst (parsePRDDirect a ctx w) =
        failure ''INPUT_FILE_NOT_FOUND''
          (''Input file not found: '' @ (if isAbsolute i then i else path_resolve (workdir w) [r, i]))
          (Some (''Checked path: '' @ (if isAbsolute i then i else path_resolve (workdir w) [r, i])
                 @ ''\<newline>Project root: '' @ r @ ''\<newline>Input argument: '' @ i)))
   \<and> (\<forall>c m d. \<not> success (failure c m d) \<and> data (failure c m d) = None
          \<and> error (failure c m d) = Some \<lparr>code = c, error_message = m, details = d\<rparr>)
   \<and> \<not> truthyStr None \<and> \<not> truthyStr (Some [])"
proof -
  have 4: "projectRoot a = Some r \<and> r \<noteq> [] \<and> input_arg a = Some i \<and> i \<noteq> []
        \<and> truthyStr (output_arg a)
        \<and> files w (if isAbsolute i then i else path_resolve (workdir w) [r, i]) = None \<longrightarrow>
      fst (parsePRDDirect a ctx w) =
        failure ''INPUT_FILE_NOT_FOUND''
          (''Input file not found: '' @ (if isAbsolute i then i else path_resolve (workdir w) [r, i]))
          (Some (''Checked path: '' @ (if isAbsolute i then i else path_resolve (workdir w) [r, i])
                 @ ''\<newline>Project root: '' @ r @ ''\<newline>Input argument: '' @ i))"
  proof
    assume h: "projectRoot a = Some r \<and> r \<noteq> [] \<and> input_arg a = Some i \<and> i \<noteq> []
        \<and> truthyStr (output_arg a)
        \<and> files w (if isAbsolute i then i else path_resolve (workdir w) [r, i]) = None"
    then have t: "truthyStr (projectRoot a)" "truthyStr (input_arg a)" "truthyStr (output_arg a)"
      by (simp_all add: truthyStr_def)
    have s: "str (projectRoot a) = r" "str (input_arg a) = i"
      using h by (simp_all add: str_def)
    have n: "\<not> existsSync (files w) (resolveArg w r i)"
      using h by (simp add: existsSync_None resolveArg_def)
    show "fst (parsePRDDirect a ctx w) =
        failure ''INPUT_FILE_NOT_FOUND''
          (''Input file not found: '' @ (if isAbsolute i then i else path_resolve (workdir w) [r, i]))
          (Some (''Checked path: '' @ (if isAbsolute i then i else path_resolve (workdir w) [r, i])
                 @ ''\<newline>Project root: '' @ r @ ''\<newline>Input argument: '' @ i))"
      unfolding parsePRDDirect_envelope parsePRDDirect_read_envelope s
      using t n by (simp add: resolveArg_def)
  qed
  have 5: "\<forall>c m d. \<not> success (failure c m d) \<and> data (failure c m d) = None
          \<and> error (failure c m d) = Some \<lparr>code = c, error_message = m, details = d\<rparr>"
    by (simp add: failure_def)
  have 6: "\<not> truthyStr None \<and> \<not> truthyStr (Some [])"
    by (simp add: truthyStr_def)
  from 4 5 6 show ?thesis
    by (simp add: parsePRDDirect_envelope)
qed

text \<open>One call for each of the four failures, on the example project.\<close>

theorem parsePRDDirect_validation_order_witness:
  "fst (parsePRDDirect (example_args\<lparr>projectRoot := None, input_arg := None, output_arg := None\<rparr>)
          example_context example_world)
     = failure ''MISSING_PROJECT_ROOT'' ''Project root is required for parsePRDDirect'' None
   \<and> fst (parsePRDDirect (example_args\<lparr>input_arg := None, output_arg := None\<rparr>)
          example_context example_world)
     = failure ''MISSING_INPUT_PATH'' ''Input file path is required for parsePRDDirect'' None
   \<and> fst (parsePRDDirect (example_args\<lparr>output_arg := Some []\<rparr>) example_context example_world)
     = failure ''MISSING_OUTPUT_PATH'' ''Output file path is required for parsePRDDirect'' None
   \<and> fst (parsePRDDirect (example_args\<lparr>input_arg := Some ''scripts/missing.txt''\<rparr>)
          example_context example_world)
     = failure ''INPUT_FILE_NOT_FOUND'' ''Input file not found: /p/scripts/missing.txt''
         (Some ''Checked path: /p/scripts/missing.txt\<newline>Project root: /p\<newline>Input argument: scripts/missing.txt'')"
proof -
  have p: "(if isAbsolute ''scripts/missing.txt'' then ''scripts/missing.txt''
            else path_resolve (workdir example_world) [''/p'', ''scripts/missing.txt''])
           = ''/p/scripts/missing.txt''"
    by (simp add: isAbsolute_def path_resolve_def example_world_def)
  have f: "files example_world ''/p/scripts/missing.txt'' = None"
    by (simp add: example_world_def)
  have 1: "fst (parsePRDDirect (example_args\<lparr>projectRoot := None, input_arg := None, output_arg := None\<rparr>)
          example_context example_world)
     = failure ''MISSING_PROJECT_ROOT'' ''Project root is required for parsePRDDirect'' None"
    using parsePRDDirect_validation_order
      [of "example_args\<lparr>projectRoot := None, input_arg := None, output_arg := None\<rparr>"
          example_context example_world]
    by (simp add: truthyStr_def)
  have 2: "fst (parsePRDDirect (example_args\<lparr>input_arg := None, output_arg := None\<rparr>)
          example_context example_world)
     = failure ''MISSING_INPUT_PATH'' ''Input file path is required for parsePRDDirect'' None"
    using parsePRDDirect_validation_order
      [of "example_args\<lparr>input_arg := None, output_arg := None\<rparr>" example_context example_world]
    by (simp add: truthyStr_def example_args_def)
  have 3: "fst (parsePRDDirect (example_args\<lparr>output_arg := Some []\<rparr>) example_context example_world)
     = failure ''MISSING_OUTPUT_PATH'' ''Output file path is required for parsePRDDirect'' None"
    using parsePRDDirect_validation_order
      [of "example_args\<lparr>output_arg := Some []\<rparr>" example_context example_world]
    by (simp add: truthyStr_def example_args_def)
  have 4: "fst (parsePRDDirect (example_args\<lparr>input_arg := Some ''scripts/missing.txt''\<rparr>)
          example_context example_world)
     = failure ''INPUT_FILE_NOT_FOUND'' ''Input file not found: /p/scripts/missing.txt''
         (Some ''Checked path: /p/scripts/missing.txt\<newline>Project root: /p\<newline>Input argument: scripts/missing.txt'')"
    using parsePRDDirect_validation_order
      [of "example_args\<lparr>input_arg := Some ''scripts/missing.txt''\<rparr>" example_context example_world
          "''/p''" "''scripts/missing.txt''"]
    unfolding p f
    by (simp add: truthyStr_def example_args_def)
  from 1 2 3 4 show ?thesis by blast
qed

subsection \<open>C6: the model configuration\<close>

text \<open>
  C6 (as amended). The claim says that a numeric field whose session text does not parse
  falls back to the default. \<open>getModelConfig\<close> has no such test: the default is taken only
  when the session value is missing or empty. What holds instead: \<open>getModelConfig\<close> is a
  total function; the model is the session's value when that is present and not empty, and
  the default otherwise; the numeric fields are what \<^verbatim>\<open>parseInt\<close> (without radix) and
  \<^verbatim>\<open>parseFloat\<close> read from the session's text when that is present and not empty, so a text
  that starts with no number (such as \<^verbatim>\<open>MAX_TOKENS="abc"\<close>) gives \<^verbatim>\<open>NaN\<close> and not the default.
  Without a session text, \<^verbatim>\<open>maxTokens\<close> is what \<^verbatim>\<open>parseInt\<close> reads from the text of the default:
  that is the default itself when the default is \<^verbatim>\<open>NaN\<close> or an integer below \<open>2\<^sup>5\<^sup>3\<close> in
  absolute value, as the 64000 of \<open>DEFAULT_MODEL_CONFIG\<close> is, but not always: a default of
  \<open>10\<^sup>2\<^sup>1\<close> is printed as \<^verbatim>\<open>1e+21\<close> and read back as 1.
\<close>

theorem getModelConfig_session_then_default:
  "model (getModelConfig s d) =
     (case session_env s ''MODEL'' of None \<Rightarrow> model d
      | Some v \<Rightarrow> (if v = [] then model d else v))
   \<and> maxTokens (getModelConfig s d) =
     (case session_env s ''MAX_TOKENS'' of None \<Rightarrow> parseInt (NumberToString (maxTokens d)) 0
      | Some v \<Rightarrow> (if v = [] then parseInt (NumberToString (maxTokens d)) 0 else parseInt v 0))
   \<and> (maxTokens d = NaN \<or> (\<exists>i. maxTokens d = Fin i \<and> \<bar>i\<bar> < 2 ^ 53) \<longrightarrow>
      maxTokens (getModelConfig s d) =
        (case session_env s ''MAX_TOKENS'' of None \<Rightarrow> maxTokens d
         | Some v \<Rightarrow> (if v = [] then maxTokens d else parseInt v 0)))
   \<and> maxTokens (getModelConfig s DEFAULT_MODEL_CONFIG) =
     (case session_env s ''MAX_TOKENS'' of None \<Rightarrow> Fin 64000
      | Some v \<Rightarrow> (if v = [] then Fin 64000 else parseInt v 0))
   \<and> maxTokens (getModelConfig None (d\<lparr>maxTokens := Fin (10 ^ 21)\<rparr>)) = Fin 1
   \<and> temperature (getModelConfig s d) =
     (case session_env s ''TEMPERATURE'' of None \<Rightarrow> temperature d
      | Some v \<Rightarrow> (if v = [] then temperature d else parseFloat v))
   \<and> (session_env s ''MAX_TOKENS'' = Some (c # cs) \<and> \<not> isWhiteSpace c \<and> c \<noteq> CHR ''+''
        \<and> c \<noteq> CHR ''-'' \<and> \<not> isDecimalDigit c
      \<longrightarrow> maxTokens (getModelConfig s d) = NaN)"
proof -
  have m: "maxTokens (getModelConfig s e) =
     (case session_env s ''MAX_TOKENS'' of None \<Rightarrow> parseInt (NumberToString (maxTokens e)) 0
      | Some v \<Rightarrow> (if v = [] then parseInt (NumberToString (maxTokens e)) 0 else parseInt v 0))" for s e
    by (simp add: getModelConfig_def orDefault_def parseIntOf_def ToString_def split: option.splits)
  have r: "maxTokens d = NaN \<or> (\<exists>i. maxTokens d = Fin i \<and> \<bar>i\<bar> < 2 ^ 53) \<longrightarrow>
      maxTokens (getModelConfig s d) =
        (case session_env s ''MAX_TOKENS'' of None \<Rightarrow> maxTokens d
         | Some v \<Rightarrow> (if v = [] then maxTokens d else parseInt v 0))"
  proof
    assume "maxTokens d = NaN \<or> (\<exists>i. maxTokens d = Fin i \<and> \<bar>i\<bar> < 2 ^ 53)"
    then have "parseInt (NumberToString (maxTokens d)) 0 = maxTokens d"
      by (rule parseInt_NumberToString)
    then show "maxTokens (getModelConfig s d) =
        (case session_env s ''MAX_TOKENS'' of None \<Rightarrow> maxTokens d
         | Some v \<Rightarrow> (if v = [] then maxTokens d else parseInt v 0))"
      unfolding m by (simp only:)
  qed
  have "\<bar>64000 :: int\<bar> < 2 ^ 53"
    by simp
  then have p: "parseInt (NumberToString (Fin 64000)) 0 = Fin 64000"
    by (intro parseInt_NumberToString) blast
  have dm: "maxTokens DEFAULT_MODEL_CONFIG = Fin 64000"
    by (simp add: DEFAULT_MODEL_CONFIG_def)
  have f: "maxTokens (getModelConfig s DEFAULT_MODEL_CONFIG) =
     (case session_env s ''MAX_TOKENS'' of None \<Rightarrow> Fin 64000
      | Some v \<Rightarrow> (if v = [] then Fin 64000 else parseInt v 0))"
    unfolding m dm p ..
  have u: "maxTokens (d\<lparr>maxTokens := v\<rparr>) = v" for v
    by simp
  have x: "maxTokens (getModelConfig None (d\<lparr>maxTokens := Fin (10 ^ 21)\<rparr>)) = Fin 1"
    unfolding m u by (simp only: session_env_def option.case
        NumberToString_sextillion parseInt_exponent_text)
  have "model (getModelConfig s d) =
     (case session_env s ''MODEL'' of None \<Rightarrow> model d
      | Some v \<Rightarrow> (if v = [] then model d else v))"
    by (simp add: getModelConfig_def strOr_def)
  moreover have "temperature (getModelConfig s d) =
     (case session_env s ''TEMPERATURE'' of None \<Rightarrow> temperature d
      | Some v \<Rightarrow> (if v = [] then temperature d else parseFloat v))"
    by (simp add: getModelConfig_def parseFloatOr_def)
  moreover have "session_env s ''MAX_TOKENS'' = Some (c # cs) \<and> \<not> isWhiteSpace c \<and> c \<noteq> CHR ''+''
        \<and> c \<noteq> CHR ''-'' \<and> \<not> isDecimalDigit c
      \<longrightarrow> maxTokens (getModelConfig s d) = NaN"
    using parseInt_no_number [of c cs] by (simp add: m)
  ultimately show ?thesis
    using m [of s d] r f x by blast
qed

text \<open>
  The default configuration without a session, with an empty \<^verbatim>\<open>MAX_TOKENS\<close> and with
  \<^verbatim>\<open>MAX_TOKENS="abc"\<close>.
\<close>

theorem getModelConfig_session_then_default_witness:
  "maxTokens (getModelConfig None DEFAULT_MODEL_CONFIG) = Fin 64000
   \<and> maxTokens (getModelConfig (Some \<lparr>env = Some [''MAX_TOKENS'' \<mapsto> []]\<rparr>) DEFAULT_MODEL_CONFIG)
       = Fin 64000
   \<and> maxTokens (getModelConfig (Some \<lparr>env = Some [''MAX_TOKENS'' \<mapsto> ''abc'']\<rparr>) DEFAULT_MODEL_CONFIG) = NaN
   \<and> model (getModelConfig (Some \<lparr>env = Some [''MAX_TOKENS'' \<mapsto> ''abc'']\<rparr>) DEFAULT_MODEL_CONFIG)
       = ''claude-3-7-sonnet-20250219''
   \<and> temperature (getModelConfig (Some \<lparr>env = Some [''MAX_TOKENS'' \<mapsto> ''abc'']\<rparr>) DEFAULT_MODEL_CONFIG)
       = FFin (2 / 10)"
proof -
  have h: "maxTokens DEFAULT_MODEL_CONFIG = NaN
      \<or> (\<exists>i. maxTokens DEFAULT_MODEL_CONFIG = Fin i \<and> \<bar>i\<bar> < 2 ^ 53)"
    by (simp add: DEFAULT_MODEL_CONFIG_def)
  have dm: "maxTokens DEFAULT_MODEL_CONFIG = Fin 64000"
    by (simp add: DEFAULT_MODEL_CONFIG_def)
  from getModelConfig_session_then_default [of None DEFAULT_MODEL_CONFIG] h
  have "maxTokens (getModelConfig None DEFAULT_MODEL_CONFIG) =
      (case session_env None ''MAX_TOKENS'' of None \<Rightarrow> maxTokens DEFAULT_MODEL_CONFIG
       | Some v \<Rightarrow> (if v = [] then maxTokens DEFAULT_MODEL_CONFIG else parseInt v 0))"
    by blast
  then have 1: "maxTokens (getModelConfig None DEFAULT_MODEL_CONFIG) = Fin 64000"
    by (simp add: session_env_def dm)
  from getModelConfig_session_then_default
    [of "Some \<lparr>env = Some [''MAX_TOKENS'' \<mapsto> []]\<rparr>" DEFAULT_MODEL_CONFIG] h
  have "maxTokens (getModelConfig (Some \<lparr>env = Some [''MAX_TOKENS'' \<mapsto> []]\<rparr>) DEFAULT_MODEL_CONFIG) =
      (case session_env (Some \<lparr>env = Some [''MAX_TOKENS'' \<mapsto> []]\<rparr>) ''MAX_TOKENS'' of
         None \<Rightarrow> maxTokens DEFAULT_MODEL_CONFIG
       | Some v \<Rightarrow> (if v = [] then maxTokens DEFAULT_MODEL_CONFIG else parseInt v 0))"
    by blast
  then have 2: "maxTokens (getModelConfig (Some \<lparr>env = Some [''MAX_TOKENS'' \<mapsto> []]\<rparr>) DEFAULT_MODEL_CONFIG)
       = Fin 64000"
    by (simp add: session_env_def dm)
  have 3: "maxTokens (getModelConfig (Some \<lparr>env = Some [''MAX_TOKENS'' \<mapsto> ''abc'']\<rparr>) DEFAULT_MODEL_CONFIG) = NaN
   \<and> model (getModelConfig (Some \<lparr>env = Some [''MAX_TOKENS'' \<mapsto> ''abc'']\<rparr>) DEFAULT_MODEL_CONFIG)
       = ''claude-3-7-sonnet-20250219''
   \<and> temperature (getModelConfig (Some \<lparr>env = Some [''MAX_TOKENS'' \<mapsto> ''abc'']\<rparr>) DEFAULT_MODEL_CONFIG)
       = FFin (2 / 10)"
    using getModelConfig_session_then_default
      [of "Some \<lparr>env = Some [''MAX_TOKENS'' \<mapsto> ''abc'']\<rparr>" DEFAULT_MODEL_CONFIG "CHR ''a''" "''bc''"]
    by (auto simp: session_env_def DEFAULT_MODEL_CONFIG_def isWhiteSpace_def isDecimalDigit_def
        isRadixDigit_def digitValue_def)
  from 1 2 3 show ?thesis by blast
qed

text \<open>
  The claim as stated fails for \<^verbatim>\<open>MAX_TOKENS="abc"\<close>: the result is \<^verbatim>\<open>NaN\<close>, the default is
  64000.
\<close>

theorem getModelConfig_fallback_counterexample:
  "maxTokens (getModelConfig (Some \<lparr>env = Some [''MAX_TOKENS'' \<mapsto> ''abc'']\<rparr>) DEFAULT_MODEL_CONFIG) = NaN
   \<and> maxTokens DEFAULT_MODEL_CONFIG = Fin 64000
   \<and> maxTokens (getModelConfig (Some \<lparr>env = Some [''MAX_TOKENS'' \<mapsto> ''abc'']\<rparr>) DEFAULT_MODEL_CONFIG)
       \<noteq> maxTokens DEFAULT_MODEL_CONFIG"
  by (simp add: getModelConfig_def orDefault_def parseIntOf_def ToString_def session_env_def
      parseInt_abc DEFAULT_MODEL_CONFIG_def)

subsection \<open>C7: the task count never makes the call fail\<close>

text \<open>
  C7. For every argument object, the outcome of \<open>parsePRDDirect\<close> (success, and the error if
  any) does not depend on the \<^verbatim>\<open>numTasks\<close> argument: replacing it by any value leaves both
  as they are. When \<^verbatim>\<open>numTasks\<close> is missing, the call logs no warning, and if it succeeds
  the count in its data is 10. When \<^verbatim>\<open>numTasks\<close> is a non-empty string that \<^verbatim>\<open>parseInt\<close>
  cannot read and the call succeeds, the count is 10 and exactly one warning is logged,
  naming the value. A warning is logged by no other call: only a non-empty unparseable
  string draws one.
\<close>

theorem numTasks_never_fails:
  "error (fst (parsePRDDirect (a\<lparr>numTasks := v\<rparr>) ctx w)) = error (fst (parsePRDDirect a ctx w))
   \<and> success (fst (parsePRDDirect (a\<lparr>numTasks := v\<rparr>) ctx w)) = success (fst (parsePRDDirect a ctx w))
   \<and> (numTasks a = JUndefined \<longrightarrow>
        warnings (snd (parsePRDDirect a ctx w)) = warnings w
        \<and> (success (fst (parsePRDDirect a ctx w)) \<longrightarrow>
             (\<exists>d. data (fst (parsePRDDirect a ctx w)) = Some (Delegated d)
                  \<and> data_numTasks d = JNum (Fin 10))))
   \<and> (numTasks a = JStr t \<and> t \<noteq> [] \<and> parseInt t 10 = NaN
        \<and> success (fst (parsePRDDirect a ctx w)) \<longrightarrow>
        (\<exists>d. data (fst (parsePRDDirect a ctx w)) = Some (Delegated d)
             \<and> data_numTasks d = JNum (Fin 10))
        \<and> warnings (snd (parsePRDDirect a ctx w)) =
            warnings w @ [(LogWarn, ''Invalid numTasks value: '' @ t @ ''. Using default: 10'')])
   \<and> (warnings (snd (parsePRDDirect a ctx w)) \<noteq> warnings w \<longrightarrow>
        (\<exists>u. numTasks a = JStr u \<and> u \<noteq> [] \<and> parseInt u 10 = NaN))"
proof -
  note o = parsePRDDirect_numTasks_outcome [where a = a and v = v and ctx = ctx and w = w]
  have 3: "numTasks a = JUndefined \<longrightarrow>
        warnings (snd (parsePRDDirect a ctx w)) = warnings w
        \<and> (success (fst (parsePRDDirect a ctx w)) \<longrightarrow>
             (\<exists>d. data (fst (parsePRDDirect a ctx w)) = Some (Delegated d)
                  \<and> data_numTasks d = JNum (Fin 10)))"
    using parsePRDDirect_numTasks_data [of a ctx w]
    by (auto simp: parsePRDDirect_warnings numTasksWarning_def parseNumTasks_eq truthy_def)
  have 4: "numTasks a = JStr t \<and> t \<noteq> [] \<and> parseInt t 10 = NaN
        \<and> success (fst (parsePRDDirect a ctx w)) \<longrightarrow>
        (\<exists>d. data (fst (parsePRDDirect a ctx w)) = Some (Delegated d)
             \<and> data_numTasks d = JNum (Fin 10))
        \<and> warnings (snd (parsePRDDirect a ctx w)) =
            warnings w @ [(LogWarn, ''Invalid numTasks value: '' @ t @ ''. Using default: 10'')]"
    using parsePRDDirect_numTasks_data [of a ctx w]
    by (auto simp: parsePRDDirect_warnings numTasksWarning_def parseNumTasks_eq)
  have 5: "warnings (snd (parsePRDDirect a ctx w)) \<noteq> warnings w \<longrightarrow>
        (\<exists>u. numTasks a = JStr u \<and> u \<noteq> [] \<and> parseInt u 10 = NaN)"
    by (auto simp: parsePRDDirect_warnings numTasksWarning_def split: if_splits jsval.splits)
  from o 3 4 5 show ?thesis by blast
qed

text \<open>The example call without \<^verbatim>\<open>numTasks\<close>, and with \<^verbatim>\<open>numTasks = "abc"\<close>.\<close>

theorem numTasks_never_fails_witness:
  "success (fst (parsePRDDirect (example_args\<lparr>numTasks := JUndefined\<rparr>) example_context example_world))
   \<and> warnings (snd (parsePRDDirect (example_args\<lparr>numTasks := JUndefined\<rparr>) example_context example_world))
       = []
   \<and> (\<exists>d. data (fst (parsePRDDirect (example_args\<lparr>numTasks := JUndefined\<rparr>) example_context example_world))
             = Some (Delegated d) \<and> data_numTasks d = JNum (Fin 10))
   \<and> success (fst (parsePRDDirect (example_args\<lparr>numTasks := JStr ''abc''\<rparr>) example_context example_world))
   \<and> warnings (snd (parsePRDDirect (example_args\<lparr>numTasks := JStr ''abc''\<rparr>) example_context example_world))
       = [(LogWarn, ''Invalid numTasks value: abc. Using default: 10'')]
   \<and> (\<exists>d. data (fst (parsePRDDirect (example_args\<lparr>numTasks := JStr ''abc''\<rparr>) example_context example_world))
             = Some (Delegated d) \<and> data_numTasks d = JNum (Fin 10))"
proof -
  have s: "success (fst (parsePRDDirect (example_args\<lparr>numTasks := v\<rparr>) example_context example_world))" for v
    by (simp add: example_envelope)
  have w0: "warnings example_world = []"
    by (simp add: warnings_def example_world_def)
  have nan: "parseInt ''abc'' 10 = NaN"
    by (simp add: parseInt_def isWhiteSpace_def isRadixDigit_def digitValue_def)
  note u = numTasks_never_fails
    [where a = "example_args\<lparr>numTasks := JUndefined\<rparr>" and v = JUndefined
       and ctx = example_context and w = example_world and t = "''abc''"]
  note b = numTasks_never_fails
    [where a = "example_args\<lparr>numTasks := JStr ''abc''\<rparr>" and v = JUndefined
       and ctx = example_context and w = example_world and t = "''abc''"]
  have 1: "warnings (snd (parsePRDDirect (example_args\<lparr>numTasks := JUndefined\<rparr>) example_context example_world))
       = []
   \<and> (\<exists>d. data (fst (parsePRDDirect (example_args\<lparr>numTasks := JUndefined\<rparr>) example_context example_world))
             = Some (Delegated d) \<and> data_numTasks d = JNum (Fin 10))"
    using u s [of JUndefined] w0 by simp
  have 2: "warnings (snd (parsePRDDirect (example_args\<lparr>numTasks := JStr ''abc''\<rparr>) example_context example_world))
       = [(LogWarn, ''Invalid numTasks value: abc. Using default: 10'')]
   \<and> (\<exists>d. data (fst (parsePRDDirect (example_args\<lparr>numTasks := JStr ''abc''\<rparr>) example_context example_world))
             = Some (Delegated d) \<and> data_numTasks d = JNum (Fin 10))"
    using b s [of "JStr ''abc''"] w0 nan by simp
  from 1 2 s show ?thesis by blast
qed

subsection \<open>C8: the mock stream\<close>

text \<open>
  C8 (as amended). The claim gives the stream the shape of one start event, the delta
  events and one stop event. The generator ends with two events, \<^verbatim>\<open>content_block_stop\<close> and
  then \<^verbatim>\<open>message_stop\<close>. What holds instead: for every parameter object the stream is the
  finite sequence of one \<^verbatim>\<open>content_block_start\<close>, one \<^verbatim>\<open>content_block_delta\<close> per chunk of the
  response, one \<^verbatim>\<open>content_block_stop\<close> and a final \<^verbatim>\<open>message_stop\<close> that carries the whole
  response; the texts of the delta events, concatenated, are the value of the
  non-streaming \<open>generateResponse\<close>, the sentinel \<^verbatim>\<open>NOT_IMPLEMENTED\<close>.
\<close>

theorem createMockStream_shape:
  "createMockStream p =
     [content_block_start mock_block]
     @ map (\<lambda>chunk. content_block_delta chunk 0) (matchChunks (generateResponse p))
     @ [content_block_stop mock_block,
        message_stop \<lparr>message_id = ''mock-message-id'', message_type = ''message'',
          role = ''assistant'',
          content = [\<lparr>content_type = ''text'', content_text = generateResponse p\<rparr>],
          message_model = strOr (params_model p) ''claude-3-7-sonnet-20250219'',
          stop_reason = ''end_turn'', usage = None\<rparr>]
   \<and> deltaTexts (createMockStream p) = matchChunks (generateResponse p)
   \<and> concat (deltaTexts (createMockStream p)) = generateResponse p
   \<and> generateResponse p = ''NOT_IMPLEMENTED''
   \<and> length (createMockStream p) = length (matchChunks (generateResponse p)) + 3"
  by (simp add: createMockStream_def Let_def generateResponse_def matchChunks_sentinel)

theorem createMockStream_shape_witness:
  "deltaTexts (createMockStream \<lparr>params_model = Some ''m'', params_stream = True\<rparr>) = [''NOT_IMPLEMENTED'']
   \<and> length (createMockStream \<lparr>params_model = Some ''m'', params_stream = True\<rparr>) = 4"
  using createMockStream_shape [of "\<lparr>params_model = Some ''m'', params_stream = True\<rparr>"]
  by (simp add: generateResponse_def matchChunks_sentinel)

text \<open>
  The stream of a call without a model: four events, the last two of them stop events.
  With one delta event, the shape of one start, the deltas and one stop would have three.
\<close>

theorem createMockStream_two_stops_counterexample:
  "createMockStream \<lparr>params_model = None, params_stream = True\<rparr> =
     [content_block_start \<lparr>block_type = ''text'', block_id = ''mock-block-id''\<rparr>,
      content_block_delta ''NOT_IMPLEMENTED'' 0,
      content_block_stop \<lparr>block_type = ''text'', block_id = ''mock-block-id''\<rparr>,
      message_stop \<lparr>message_id = ''mock-message-id'', message_type = ''message'',
        role = ''assistant'',
        content = [\<lparr>content_type = ''text'', content_text = ''NOT_IMPLEMENTED''\<rparr>],
        message_model = ''claude-3-7-sonnet-20250219'',
        stop_reason = ''end_turn'', usage = None\<rparr>]
   \<and> length (deltaTexts (createMockStream \<lparr>params_model = None, params_stream = True\<rparr>)) = 1
   \<and> length (createMockStream \<lparr>params_model = None, params_stream = True\<rparr>)
       \<noteq> 1 + length (deltaTexts (createMockStream \<lparr>params_model = None, params_stream = True\<rparr>)) + 1"
  by (simp add: createMockStream_def Let_def generateResponse_def matchChunks_sentinel mock_block_def
      strOr_def)

subsection \<open>C9: the execution-mode flag of the process\<close>

text \<open>
  C9 (as amended). The claim reads the flag \<^verbatim>\<open>process.env.CLAUDE_DESKTOP\<close> as read-only
  during a call. The function assigns it: \<^verbatim>\<open>process.env.CLAUDE_DESKTOP = 'true'\<close> is its
  second statement. What holds instead: for every argument object, context and initial
  world, the process environment after \<open>parsePRDDirect\<close> is the environment before with
  \<^verbatim>\<open>CLAUDE_DESKTOP\<close> set to \<^verbatim>\<open>'true'\<close>; every other variable is as it was, and the flag is
  unchanged exactly when it was \<^verbatim>\<open>'true'\<close> already.
\<close>

theorem parsePRDDirect_sets_desktop_flag:
  "process_env (snd (parsePRDDirect a ctx w)) = (process_env w)(''CLAUDE_DESKTOP'' \<mapsto> ''true'')"
proof -
  obtain e w' where r: "parsePRDDirect a ctx w = (e, w')"
    by (cases "parsePRDDirect a ctx w")
  then have "keeps (entered a w) w'"
    by (rule parsePRDDirect_effect)
  then have "process_env w' = (process_env w)(''CLAUDE_DESKTOP'' \<mapsto> ''true'')"
    by (simp add: keeps_def)
  with r show ?thesis by simp
qed

text \<open>
  The claim as stated fails on the example call: the flag is not set before it and is
  \<^verbatim>\<open>'true'\<close> after it.
\<close>

theorem parsePRDDirect_flag_counterexample:
  "process_env example_world ''CLAUDE_DESKTOP'' = None
   \<and> process_env (snd (parsePRDDirect example_args example_context example_world)) ''CLAUDE_DESKTOP''
       = Some ''true''
   \<and> process_env (snd (parsePRDDirect example_args example_context example_world)) ''CLAUDE_DESKTOP''
       \<noteq> process_env example_world ''CLAUDE_DESKTOP''"
proof -
  obtain e w' where r: "parsePRDDirect example_args example_context example_world = (e, w')"
    by (cases "parsePRDDirect example_args example_context example_world")
  then have "keeps (entered example_args example_world) w'"
    by (rule parsePRDDirect_effect)
  then have "process_env w' ''CLAUDE_DESKTOP'' = Some ''true''"
    by (simp add: keeps_def)
  with r show ?thesis by (simp add: example_world_def)
qed

subsection \<open>C10: numbers and strings are coerced differently\<close>

text \<open>
  C10. In a call that succeeds, the number \<open>0\<close> as \<^verbatim>\<open>numTasks\<close> is falsy, is treated as
  missing, and the count in the data is 10; a string that \<^verbatim>\<open>parseInt\<close> reads as the integer
  \<open>k\<close> gives the count \<open>k\<close> whatever its sign, and the two prompts are the ones built for
  \<open>k\<close>, the resolved input path and the content of the input file: the system prompt
  asks for exactly \<open>k\<close> tasks, numbered from 1 to \<open>k\<close>, with \<^verbatim>\<open>totalTasks\<close> \<open>k\<close> in the
  metadata, and the user prompt asks to break the document down into \<open>k\<close> tasks. The
  strings \<^verbatim>\<open>"0"\<close> and \<^verbatim>\<open>"-5"\<close> are read as \<open>0\<close> and \<open>-5\<close>, which are printed as \<^verbatim>\<open>0\<close> and \<^verbatim>\<open>-5\<close>,
  so the envelope and the prompts can carry a count that is not positive.
\<close>

theorem numTasks_coercion_asymmetric:
  \<open>(success (fst (parsePRDDirect a ctx w)) \<and> numTasks a = JNum (Fin 0) \<longrightarrow>
      (\<exists>d. data (fst (parsePRDDirect a ctx w)) = Some (Delegated d)
           \<and> data_numTasks d = JNum (Fin 10)))
   \<and> (success (fst (parsePRDDirect a ctx w)) \<and> numTasks a = JStr t \<and> parseInt t 10 = Fin k \<longrightarrow>
      (\<exists>d r i prd.
           data (fst (parsePRDDirect a ctx w)) = Some (Delegated d)
           \<and> projectRoot a = Some r \<and> input_arg a = Some i
           \<and> files w (if isAbsolute i then i else path_resolve (workdir w) [r, i]) = Some (File prd)
           \<and> data_numTasks d = JNum (Fin k)
           \<and> data_systemPrompt d =
               systemPromptText (JNum (Fin k))
                 (if isAbsolute i then i else path_resolve (workdir w) [r, i]) (today w)
           \<and> sublist (''Your goal is to create exactly '' @ NumberToString (Fin k)
                 @ '' well-structured, actionable development tasks'') (data_systemPrompt d)
           \<and> sublist (''1. Number tasks from 1 to '' @ NumberToString (Fin k) @ ''.\<newline>'')
                 (data_systemPrompt d)
           \<and> sublist (''    "totalTasks": '' @ NumberToString (Fin k) @ '',\<newline>'')
                 (data_systemPrompt d)
           \<and> data_userPrompt d =
               ''Here's the Product Requirements Document (PRD) to break down into ''
               @ NumberToString (Fin k) @ '' tasks:\<newline>\<newline>'' @ prd))
   \<and> parseInt ''0'' 10 = Fin 0 \<and> parseInt ''-5'' 10 = Fin (- 5)
   \<and> NumberToString (Fin 0) = ''0'' \<and> NumberToString (Fin (- 5)) = ''-5''\<close>
proof -
  have 1: "success (fst (parsePRDDirect a ctx w)) \<and> numTasks a = JNum (Fin 0) \<longrightarrow>
      (\<exists>d. data (fst (parsePRDDirect a ctx w)) = Some (Delegated d)
           \<and> data_numTasks d = JNum (Fin 10))"
    using parsePRDDirect_numTasks_data [of a ctx w]
    by (auto simp: parseNumTasks_eq truthy_def)
  have 2: \<open>success (fst (parsePRDDirect a ctx w)) \<and> numTasks a = JStr t \<and> parseInt t 10 = Fin k \<longrightarrow>
      (\<exists>d r i prd.
           data (fst (parsePRDDirect a ctx w)) = Some (Delegated d)
           \<and> projectRoot a = Some r \<and> input_arg a = Some i
           \<and> files w (if isAbsolute i then i else path_resolve (workdir w) [r, i]) = Some (File prd)
           \<and> data_numTasks d = JNum (Fin k)
           \<and> data_systemPrompt d =
               systemPromptText (JNum (Fin k))
                 (if isAbsolute i then i else path_resolve (workdir w) [r, i]) (today w)
           \<and> sublist (''Your goal is to create exactly '' @ NumberToString (Fin k)
                 @ '' well-structured, actionable development tasks'') (data_systemPrompt d)
           \<and> sublist (''1. Number tasks from 1 to '' @ NumberToString (Fin k) @ ''.\<newline>'')
                 (data_systemPrompt d)
           \<and> sublist (''    "totalTasks": '' @ NumberToString (Fin k) @ '',\<newline>'')
                 (data_systemPrompt d)
           \<and> data_userPrompt d =
               ''Here's the Product Requirements Document (PRD) to break down into ''
               @ NumberToString (Fin k) @ '' tasks:\<newline>\<newline>'' @ prd)\<close>
  proof
    assume h: "success (fst (parsePRDDirect a ctx w)) \<and> numTasks a = JStr t \<and> parseInt t 10 = Fin k"
    then have "t \<noteq> []"
      using parseInt_empty [of 10] by auto
    with h have n: "fst (parseNumTasks (numTasks a) w) = JNum (Fin k)"
      by (simp add: parseNumTasks_eq)
    from h parsePRDDirect_success [of a ctx w]
    obtain r i out prd where
      a: "projectRoot a = Some r" "input_arg a = Some i"
      and f: "files w (resolveArg w r i) = Some (File prd)"
      and e: "fst (parsePRDDirect a ctx w) =
      \<lparr>success = True,
       data = Some (Delegated
         \<lparr>data_message = ''PRD parsing should be handled directly by Claude'',
          data_shouldBeHandledByClaudeDirectly = True,
          data_systemPrompt =
            systemPromptText (fst (parseNumTasks (numTasks a) w)) (resolveArg w r i) (today w),
          data_userPrompt =
            ''Here's the Product Requirements Document (PRD) to break down into ''
            @ ToString (fst (parseNumTasks (numTasks a) w)) @ '' tasks:\<newline>\<newline>'' @ prd,
          data_outputPath = resolveArg w r out,
          data_numTasks = fst (parseNumTasks (numTasks a) w),
          data_append = truthy (append_arg a)\<rparr>),
       error = None, fromCache = False\<rparr>"
      by blast
    let ?path = "if isAbsolute i then i else path_resolve (workdir w) [r, i]"
    let ?d = "\<lparr>data_message = ''PRD parsing should be handled directly by Claude'',
          data_shouldBeHandledByClaudeDirectly = True,
          data_systemPrompt = systemPromptText (JNum (Fin k)) ?path (today w),
          data_userPrompt =
            ''Here's the Product Requirements Document (PRD) to break down into ''
            @ NumberToString (Fin k) @ '' tasks:\<newline>\<newline>'' @ prd,
          data_outputPath = resolveArg w r out,
          data_numTasks = JNum (Fin k),
          data_append = truthy (append_arg a)\<rparr>"
    have ts: "ToString (JNum (Fin k)) = NumberToString (Fin k)"
      by (simp add: ToString_def)
    have sp: "data_systemPrompt ?d = systemPromptText (JNum (Fin k)) ?path (today w)"
      by simp
    have d1: "data (fst (parsePRDDirect a ctx w)) = Some (Delegated ?d)"
      unfolding e n ts resolveArg_def by simp
    have d2: "files w ?path = Some (File prd)"
      using f by (simp only: resolveArg_def)
    have d3: "data_numTasks ?d = JNum (Fin k)"
      by simp
    have d4: \<open>sublist (''Your goal is to create exactly '' @ NumberToString (Fin k)
                 @ '' well-structured, actionable development tasks'') (data_systemPrompt ?d)\<close>
      unfolding sp using systemPromptText_count(1) [of "JNum (Fin k)" ?path "today w"]
      by (simp only: ts)
    have d5: \<open>sublist (''1. Number tasks from 1 to '' @ NumberToString (Fin k) @ ''.\<newline>'')
                 (data_systemPrompt ?d)\<close>
      unfolding sp using systemPromptText_count(2) [of "JNum (Fin k)" ?path "today w"]
      by (simp only: ts)
    have d6: \<open>sublist (''    "totalTasks": '' @ NumberToString (Fin k) @ '',\<newline>'')
                 (data_systemPrompt ?d)\<close>
      unfolding sp using systemPromptText_count(3) [of "JNum (Fin k)" ?path "today w"]
      by (simp only: ts)
    have d7: "data_userPrompt ?d =
               ''Here's the Product Requirements Document (PRD) to break down into ''
               @ NumberToString (Fin k) @ '' tasks:\<newline>\<newline>'' @ prd"
      by simp
    from d1 a d2 d3 sp d4 d5 d6 d7
    show \<open>\<exists>d r i prd.
           data (fst (parsePRDDirect a ctx w)) = Some (Delegated d)
           \<and> projectRoot a = Some r \<and> input_arg a = Some i
           \<and> files w (if isAbsolute i then i else path_resolve (workdir w) [r, i]) = Some (File prd)
           \<and> data_numTasks d = JNum (Fin k)
           \<and> data_systemPrompt d =
               systemPromptText (JNum (Fin k))
                 (if isAbsolute i then i else path_resolve (workdir w) [r, i]) (today w)
           \<and> sublist (''Your goal is to create exactly '' @ NumberToString (Fin k)
                 @ '' well-structured, actionable development tasks'') (data_systemPrompt d)
           \<and> sublist (''1. Number tasks from 1 to '' @ NumberToString (Fin k) @ ''.\<newline>'')
                 (data_systemPrompt d)
           \<and> sublist (''    "totalTasks": '' @ NumberToString (Fin k) @ '',\<newline>'')
                 (data_systemPrompt d)
           \<and> data_userPrompt d =
               ''Here's the Product Requirements Document (PRD) to break down into ''
               @ NumberToString (Fin k) @ '' tasks:\<newline>\<newline>'' @ prd\<close>
      by blast
  qed
  have 3: "parseInt ''0'' 10 = Fin 0 \<and> parseInt ''-5'' 10 = Fin (- 5)"
    by (simp add: parseInt_def isWhiteSpace_def isRadixDigit_def digitValue_def digitsValue_def
        toDouble_small)
  have "NumberToString (Fin 0) = decimal 0 \<and> NumberToString (Fin (- 5)) = CHR ''-'' # decimal 5"
    by (simp add: NumberToString_small)
  then have 4: "NumberToString (Fin 0) = ''0'' \<and> NumberToString (Fin (- 5)) = ''-5''"
    by (simp add: decimal.simps digitChar_def)
  from 1 2 3 4 show ?thesis by blast
qed

text \<open>
  The example call with the number \<open>0\<close>, the string \<^verbatim>\<open>"0"\<close> and the string \<^verbatim>\<open>"-5"\<close>: the
  prompts of the last ask for exactly -5 tasks.
\<close>

theorem numTasks_coercion_asymmetric_witness:
  \<open>(\<exists>d. data (fst (parsePRDDirect (example_args\<lparr>numTasks := JNum (Fin 0)\<rparr>) example_context example_world))
          = Some (Delegated d) \<and> data_numTasks d = JNum (Fin 10))
   \<and> (\<exists>d. data (fst (parsePRDDirect (example_args\<lparr>numTasks := JStr ''0''\<rparr>) example_context example_world))
           = Some (Delegated d)
         \<and> data_numTasks d = JNum (Fin 0)
         \<and> sublist ''Your goal is to create exactly 0 well-structured, actionable development tasks''
              (data_systemPrompt d)
         \<and> sublist ''1. Number tasks from 1 to 0.\<newline>'' (data_systemPrompt d)
         \<and> sublist ''    "totalTasks": 0,\<newline>'' (data_systemPrompt d)
         \<and> data_userPrompt d =
             ''Here's the Product Requirements Document (PRD) to break down into 0 tasks:\<newline>\<newline>Build a thing.'')
   \<and> (\<exists>d. data (fst (parsePRDDirect (example_args\<lparr>numTasks := JStr ''-5''\<rparr>) example_context example_world))
           = Some (Delegated d)
         \<and> data_numTasks d = JNum (Fin (- 5))
         \<and> sublist ''Your goal is to create exactly -5 well-structured, actionable development tasks''
              (data_systemPrompt d)
         \<and> sublist ''1. Number tasks from 1 to -5.\<newline>'' (data_systemPrompt d)
         \<and> sublist ''    "totalTasks": -5,\<newline>'' (data_systemPrompt d)
         \<and> data_userPrompt d =
             ''Here's the Product Requirements Document (PRD) to break down into -5 tasks:\<newline>\<newline>Build a thing.'')\<close>
proof -
  have s: "success (fst (parsePRDDirect (example_args\<lparr>numTasks := v\<rparr>) example_context example_world))" for v
    by (simp add: example_envelope)
  have f: "files example_world ''/p/scripts/prd.txt'' = Some (File prd) \<Longrightarrow> prd = ''Build a thing.''" for prd
    by (simp add: example_world_def)
  have p: "projectRoot (example_args\<lparr>numTasks := v\<rparr>) = Some r \<Longrightarrow> input_arg (example_args\<lparr>numTasks := v\<rparr>) = Some i
      \<Longrightarrow> files example_world (if isAbsolute i then i else path_resolve (workdir example_world) [r, i])
            = Some (File prd)
      \<Longrightarrow> prd = ''Build a thing.''" for v r i prd
    using f example_paths(1) by (simp add: example_args_def resolveArg_def)
  note z = numTasks_coercion_asymmetric
    [of "example_args\<lparr>numTasks := JNum (Fin 0)\<rparr>" example_context example_world "''0''" 0]
  note a = numTasks_coercion_asymmetric
    [of "example_args\<lparr>numTasks := JStr ''0''\<rparr>" example_context example_world "''0''" 0]
  note b = numTasks_coercion_asymmetric
    [of "example_args\<lparr>numTasks := JStr ''-5''\<rparr>" example_context example_world "''-5''" "- 5"]
  have 1: "\<exists>d. data (fst (parsePRDDirect (example_args\<lparr>numTasks := JNum (Fin 0)\<rparr>) example_context example_world))
          = Some (Delegated d) \<and> data_numTasks d = JNum (Fin 10)"
    using z s [of "JNum (Fin 0)"] by simp
  have n0: "NumberToString (Fin 0) = ''0''" and n5: "NumberToString (Fin (- 5)) = ''-5''"
    using z by blast+
  from a s [of "JStr ''0''"]
  obtain d r i prd where
    d: "data (fst (parsePRDDirect (example_args\<lparr>numTasks := JStr ''0''\<rparr>) example_context example_world))
         = Some (Delegated d)"
      "data_numTasks d = JNum (Fin 0)"
    and q: "projectRoot (example_args\<lparr>numTasks := JStr ''0''\<rparr>) = Some r"
      "input_arg (example_args\<lparr>numTasks := JStr ''0''\<rparr>) = Some i"
      "files example_world (if isAbsolute i then i else path_resolve (workdir example_world) [r, i])
         = Some (File prd)"
    and c: \<open>sublist (''Your goal is to create exactly '' @ NumberToString (Fin 0)
                 @ '' well-structured, actionable development tasks'') (data_systemPrompt d)\<close>
      \<open>sublist (''1. Number tasks from 1 to '' @ NumberToString (Fin 0) @ ''.\<newline>'') (data_systemPrompt d)\<close>
      \<open>sublist (''    "totalTasks": '' @ NumberToString (Fin 0) @ '',\<newline>'') (data_systemPrompt d)\<close>
      "data_userPrompt d =
         ''Here's the Product Requirements Document (PRD) to break down into ''
         @ NumberToString (Fin 0) @ '' tasks:\<newline>\<newline>'' @ prd"
    by auto
  from q have "prd = ''Build a thing.''"
    by (rule p)
  with c have \<open>sublist ''Your goal is to create exactly 0 well-structured, actionable development tasks''
              (data_systemPrompt d)
         \<and> sublist ''1. Number tasks from 1 to 0.\<newline>'' (data_systemPrompt d)
         \<and> sublist ''    "totalTasks": 0,\<newline>'' (data_systemPrompt d)
         \<and> data_userPrompt d =
             ''Here's the Product Requirements Document (PRD) to break down into 0 tasks:\<newline>\<newline>Build a thing.''\<close>
    by (simp only: n0 append.simps simp_thms)
  with d have 2: \<open>\<exists>d. data (fst (parsePRDDirect (example_args\<lparr>numTasks := JStr ''0''\<rparr>) example_context example_world))
           = Some (Delegated d)
         \<and> data_numTasks d = JNum (Fin 0)
         \<and> sublist ''Your goal is to create exactly 0 well-structured, actionable development tasks''
              (data_systemPrompt d)
         \<and> sublist ''1. Number tasks from 1 to 0.\<newline>'' (data_systemPrompt d)
         \<and> sublist ''    "totalTasks": 0,\<newline>'' (data_systemPrompt d)
         \<and> data_userPrompt d =
             ''Here's the Product Requirements Document (PRD) to break down into 0 tasks:\<newline>\<newline>Build a thing.''\<close>
    by blast
  from b s [of "JStr ''-5''"]
  obtain d r i prd where
    d: "data (fst (parsePRDDirect (example_args\<lparr>numTasks := JStr ''-5''\<rparr>) example_context example_world))
         = Some (Delegated d)"
      "data_numTasks d = JNum (Fin (- 5))"
    and q: "projectRoot (example_args\<lparr>numTasks := JStr ''-5''\<rparr>) = Some r"
      "input_arg (example_args\<lparr>numTasks := JStr ''-5''\<rparr>) = Some i"
      "files example_world (if isAbsolute i then i else path_resolve (workdir example_world) [r, i])
         = Some (File prd)"
    and c: \<open>sublist (''Your goal is to create exactly '' @ NumberToString (Fin (- 5))
                 @ '' well-structured, actionable development tasks'') (data_systemPrompt d)\<close>
      \<open>sublist (''1. Number tasks from 1 to '' @ NumberToString (Fin (- 5)) @ ''.\<newline>'') (data_systemPrompt d)\<close>
      \<open>sublist (''    "totalTasks": '' @ NumberToString (Fin (- 5)) @ '',\<newline>'') (data_systemPrompt d)\<close>
      "data_userPrompt d =
         ''Here's the Product Requirements Document (PRD) to break down into ''
         @ NumberToString (Fin (- 5)) @ '' tasks:\<newline>\<newline>'' @ prd"
    by auto
  from q have "prd = ''Build a thing.''"
    by (rule p)
  with c have \<open>sublist ''Your goal is to create exactly -5 well-structured, actionable development tasks''
              (data_systemPrompt d)
         \<and> sublist ''1. Number tasks from 1 to -5.\<newline>'' (data_systemPrompt d)
         \<and> sublist ''    "totalTasks": -5,\<newline>'' (data_systemPrompt d)
         \<and> data_userPrompt d =
             ''Here's the Product Requirements Document (PRD) to break down into -5 tasks:\<newline>\<newline>Build a thing.''\<close>
    by (simp only: n5 append.simps simp_thms)
  with d have 3: \<open>\<exists>d. data (fst (parsePRDDirect (example_args\<lparr>numTasks := JStr ''-5''\<rparr>) example_context example_world))
           = Some (Delegated d)
         \<and> data_numTasks d = JNum (Fin (- 5))
         \<and> sublist ''Your goal is to create exactly -5 well-structured, actionable development tasks''
              (data_systemPrompt d)
         \<and> sublist ''1. Number tasks from 1 to -5.\<newline>'' (data_systemPrompt d)
         \<and> sublist ''    "totalTasks": -5,\<newline>'' (data_systemPrompt d)
         \<and> data_userPrompt d =
             ''Here's the Product Requirements Document (PRD) to break down into -5 tasks:\<newline>\<newline>Build a thing.''\<close>
    by blast
  from 1 2 3 show ?thesis by blast
qed
end
